theory Spec2Isabelle
  imports Main "HOL-Library.AList"
begin

section \<open>JavaScript values, objects and strings\<close>

text \<open>
  The values a row field, a primary key or an operand of a find operator can hold.
  \<open>VUndef\<close> is \<^verbatim>\<open>undefined\<close>, also the result of reading a property that an object
  does not have. Numbers are modelled as integers.
\<close>

datatype jsval = VUndef | VNull | VBool bool | VNum int | VStr string

text \<open>The truthiness test of \<^verbatim>\<open>if (x)\<close> and \<^verbatim>\<open>!x\<close>.\<close>

fun truthy :: "jsval \<Rightarrow> bool" where
  "truthy VUndef = False"
| "truthy VNull = False"
| "truthy (VBool b) = b"
| "truthy (VNum n) = (n \<noteq> 0)"
| "truthy (VStr s) = (s \<noteq> [])"

text \<open>
  A thrown value: an \<^verbatim>\<open>Error\<close> instance with its message, or any other value, kept as
  its \<^verbatim>\<open>String(e)\<close> rendering.
\<close>

datatype thrown = JsError string | JsThrown string

text \<open>\<^verbatim>\<open>e instanceof Error ? e.message : String(e)\<close>\<close>

fun errorMessage :: "thrown \<Rightarrow> string" where
  "errorMessage (JsError m) = m"
| "errorMessage (JsThrown s) = s"

text \<open>
  An object literal is an association list in property order. Writing a property keeps
  the position of a key that is already there and appends a new key
  (\<^const>\<open>AList.update\<close>); the spread \<^verbatim>\<open>{...a, ...b}\<close> writes the properties of
  \<open>b\<close> over \<open>a\<close> one by one.
\<close>

type_synonym row = "(string \<times> jsval) list"

definition getProp :: "row \<Rightarrow> string \<Rightarrow> jsval" where
  "getProp r k = (case map_of r k of None \<Rightarrow> VUndef | Some v \<Rightarrow> v)"

definition spread :: "('k \<times> 'v) list \<Rightarrow> ('k \<times> 'v) list \<Rightarrow> ('k \<times> 'v) list" where
  "spread a b = fold (\<lambda>(k, v). AList.update k v) b a"

text \<open>\<^verbatim>\<open>s.split(c)\<close> for a one-character separator: never empty, \<^verbatim>\<open>''.split(c)\<close> is \<^verbatim>\<open>['']\<close>.\<close>

fun split_on :: "char \<Rightarrow> string \<Rightarrow> string list" where
  "split_on c [] = [[]]"
| "split_on c (x # xs) =
     (if x = c then [] # split_on c xs
      else (case split_on c xs of
              [] \<Rightarrow> [[x]]
            | w # ws \<Rightarrow> (x # w) # ws))"

text \<open>
  \<^verbatim>\<open>s.toUpperCase()\<close> on ASCII text: the letters a to z are mapped to A to Z and every
  other character is kept.
\<close>

definition upperChar :: "char \<Rightarrow> char" where
  "upperChar c =
     (case map_of (zip ''abcdefghijklmnopqrstuvwxyz'' ''ABCDEFGHIJKLMNOPQRSTUVWXYZ'') c of
        None \<Rightarrow> c
      | Some u \<Rightarrow> u)"

definition toUpperCase :: "string \<Rightarrow> string" where
  "toUpperCase s = map upperChar s"

text \<open>A query-string value: \<^verbatim>\<open>string | string[]\<close>.\<close>

datatype qvalue = Str string | Arr "string list"

text \<open>Truthiness of a \<^verbatim>\<open>string | string[]\<close>: only the empty string is falsy.\<close>

fun qtruthy :: "qvalue \<Rightarrow> bool" where
  "qtruthy (Str s) = (s \<noteq> [])"
| "qtruthy (Arr xs) = True"

section \<open>Find operators, where clauses and find options\<close>

text \<open>The find operators of the ORM that the helpers build.\<close>

datatype findop =
    MoreThan jsval
  | MoreThanOrEqual jsval
  | LessThan jsval
  | LessThanOrEqual jsval
  | Equal jsval
  | NotOp findop
  | IsNull
  | AndOp "findop list"
  | Like string

text \<open>
  The value of one property of a where object: a plain value (an equality literal for the
  ORM), an array of strings, a find operator, or a nested where object of a relation.
\<close>

datatype wval =
    WVal jsval
  | WStrs "string list"
  | WOp findop
  | WObj "(string \<times> wval) list"

type_synonym whereobj = "(string \<times> wval) list"

text \<open>\<^verbatim>\<open>FindOptionsWhere<T>[] | FindOptionsWhere<T>\<close>\<close>

datatype where_clause = WhereOne whereobj | WhereMany "whereobj list"

text \<open>
  The relations of find options: a list of names (or the raw string the free
  \<^verbatim>\<open>findOptions\<close> can leave there), or the object of flags that
  \<^verbatim>\<open>Query.getRelations\<close> builds.
\<close>

datatype relations_sel = RelNames qvalue | RelFlags "(string \<times> bool) list"

text \<open>
  \<^verbatim>\<open>FindManyOptions\<close>: every property is optional, \<open>None\<close> is an absent property
  (\<^verbatim>\<open>omitBy(options, isNil)\<close> drops the nil ones). The order object is a list of
  column and direction.
\<close>

record FindManyOptions =
  o_take :: "int option"
  o_skip :: "int option"
  o_order :: "(string \<times> string) list option"
  o_select :: "qvalue option"
  o_relations :: "relations_sel option"
  o_where :: "where_clause option"

definition emptyOptions :: FindManyOptions where
  "emptyOptions =
     \<lparr>o_take = None, o_skip = None, o_order = None, o_select = None,
      o_relations = None, o_where = None\<rparr>"

section \<open>Bulk import modes and the bulk result\<close>

datatype ImportMode = CREATE | UPSERT | DELETE | REPOPULATE

record BulkUploadResponse =
  b_total :: nat
  b_processed :: nat
  b_created :: nat
  b_updated :: nat
  b_deleted :: nat
  b_errored :: nat
  b_errors :: "string list option"
  b_ids :: "jsval list"

section \<open>Repository metadata\<close>

text \<open>
  What the helpers read of \<^verbatim>\<open>repository.metadata\<close>: the table name, the columns with
  their property name and primary flag, and the property names of the relations.
\<close>

record column =
  propertyName :: string
  isPrimary :: bool

record entity_metadata =
  tableName :: string
  columns :: "column list"
  relations :: "string list"

section \<open>TypeOrm.ts: the options builder\<close>

text \<open>The loosely typed query object of the controllers.\<close>

record query_options =
  q_select :: "qvalue option"
  q_relations :: "qvalue option"
  q_limit :: "int option"
  q_offset :: "int option"
  q_order_by :: "string option"
  q_order_by_type :: "string option"

text \<open>
  \<^verbatim>\<open>if (query.select) { query.select = query.select.split(',') }\<close> followed by
  \<^verbatim>\<open>query.select ?? null\<close>: an empty string is falsy and stays as it is, an array has
  no \<^verbatim>\<open>split\<close> method.
\<close>

fun splitField :: "string \<Rightarrow> qvalue option \<Rightarrow> thrown + qvalue option" where
  "splitField name None = Inr None"
| "splitField name (Some (Str s)) =
     (if s = [] then Inr (Some (Str s)) else Inr (Some (Arr (split_on CHR '','' s))))"
| "splitField name (Some (Arr xs)) = Inl (JsError (''query.'' @ name @ ''.split is not a function''))"

text \<open>
  \<^verbatim>\<open>query.order_by ? { [query.order_by]: query.order_by_type ?? 'ASC' } : fallback\<close>
\<close>

definition orderOf :: "query_options \<Rightarrow> (string \<times> string) list \<Rightarrow> (string \<times> string) list" where
  "orderOf query fallback =
     (case q_order_by query of
        None \<Rightarrow> fallback
      | Some ob \<Rightarrow>
          if ob = [] then fallback
          else [(ob, case q_order_by_type query of None \<Rightarrow> ''ASC'' | Some t \<Rightarrow> t)])"

text \<open>The free function \<^verbatim>\<open>findOptions(query, where, default_sort)\<close> of TypeOrm.ts.\<close>

definition findOptions :: "query_options \<Rightarrow> where_clause \<Rightarrow> string \<Rightarrow> thrown + FindManyOptions" where
  "findOptions query wh default_sort =
     (case splitField ''select'' (q_select query) of
        Inl e \<Rightarrow> Inl e
      | Inr sel \<Rightarrow>
          (case splitField ''relations'' (q_relations query) of
             Inl e \<Rightarrow> Inl e
           | Inr rel \<Rightarrow>
               Inr \<lparr>o_take = Some (case q_limit query of None \<Rightarrow> 20 | Some l \<Rightarrow> l),
                    o_skip = Some (case q_offset query of None \<Rightarrow> 0 | Some d \<Rightarrow> d),
                    o_order = Some (orderOf query [(default_sort, ''ASC'')]),
                    o_select = sel,
                    o_relations = map_option RelNames rel,
                    o_where = Some wh\<rparr>))"

text \<open>The free function \<^verbatim>\<open>findOneOptions(query, where)\<close> of TypeOrm.ts.\<close>

definition findOneOptions :: "query_options \<Rightarrow> where_clause \<Rightarrow> thrown + FindManyOptions" where
  "findOneOptions query wh =
     (case splitField ''select'' (q_select query) of
        Inl e \<Rightarrow> Inl e
      | Inr sel \<Rightarrow>
          (case splitField ''relations'' (q_relations query) of
             Inl e \<Rightarrow> Inl e
           | Inr rel \<Rightarrow>
               Inr (emptyOptions\<lparr>o_select := sel, o_relations := map_option RelNames rel,
                                 o_where := Some wh\<rparr>)))"

text \<open>
  \<^verbatim>\<open>getPrimaryKey(repository)\<close> of TypeOrm.ts: the property name of the first primary
  column; a missing or empty name throws.
\<close>

definition getPrimaryKey :: "entity_metadata \<Rightarrow> thrown + string" where
  "getPrimaryKey m =
     (case find isPrimary (columns m) of
        None \<Rightarrow> Inl (JsError ''Primary key not found'')
      | Some c \<Rightarrow>
          if propertyName c = [] then Inl (JsError ''Primary key not found'')
          else Inr (propertyName c))"

text \<open>The where object \<^verbatim>\<open>{ [pk]: MoreThan(0) }\<close>.\<close>

definition pkMoreThanZero :: "string \<Rightarrow> where_clause" where
  "pkMoreThanZero pk = WhereOne [(pk, WOp (MoreThan (VNum 0)))]"

definition handleEmptyOptions :: "entity_metadata \<Rightarrow> FindManyOptions option \<Rightarrow> thrown + FindManyOptions" where
  "handleEmptyOptions m options =
     (case options of
        Some opts \<Rightarrow> Inr opts
      | None \<Rightarrow>
          (case getPrimaryKey m of
             Inl e \<Rightarrow> Inl e
           | Inr pk \<Rightarrow>
               Inr (emptyOptions\<lparr>o_where := Some (pkMoreThanZero pk),
                                 o_order := Some [(''created_at'', ''DESC'')]\<rparr>)))"

definition handleEmptyWhere :: "entity_metadata \<Rightarrow> FindManyOptions option \<Rightarrow> thrown + FindManyOptions option" where
  "handleEmptyWhere m options =
     (case options of
        None \<Rightarrow> Inr None
      | Some opts \<Rightarrow>
          (case o_where opts of
             Some w \<Rightarrow> Inr (Some opts)
           | None \<Rightarrow>
               (case getPrimaryKey m of
                  Inl e \<Rightarrow> Inl e
                | Inr pk \<Rightarrow> Inr (Some (opts\<lparr>o_where := Some (pkMoreThanZero pk)\<rparr>)))))"

text \<open>The parameter default \<^verbatim>\<open>options: FindManyOptions = {}\<close> replaces an absent argument.\<close>

definition handleEmptyRelations :: "entity_metadata \<Rightarrow> FindManyOptions option \<Rightarrow> FindManyOptions" where
  "handleEmptyRelations m options =
     (let opts = (case options of None \<Rightarrow> emptyOptions | Some v \<Rightarrow> v)
      in case o_relations opts of
           Some r \<Rightarrow> opts
         | None \<Rightarrow> opts\<lparr>o_relations := Some (RelNames (Arr (relations m)))\<rparr>)"

text \<open>
  \<^verbatim>\<open>filterOutInvalidSelectValues\<close>: a truthy select is filtered against the property
  names of the columns; a non-empty string there has no \<^verbatim>\<open>filter\<close> method.
\<close>

definition filterOutInvalidSelectValues :: "entity_metadata \<Rightarrow> FindManyOptions \<Rightarrow> thrown + FindManyOptions" where
  "filterOutInvalidSelectValues m options =
     (case o_select options of
        None \<Rightarrow> Inr options
      | Some (Str s) \<Rightarrow>
          if s = [] then Inr options else Inl (JsError ''options.select.filter is not a function'')
      | Some (Arr xs) \<Rightarrow>
          Inr (options\<lparr>o_select :=
                 Some (Arr (filter (\<lambda>s. s \<in> set (map propertyName (columns m))) xs))\<rparr>))"

definition findAllOptionsWrapper :: "entity_metadata \<Rightarrow> FindManyOptions option \<Rightarrow> thrown + FindManyOptions" where
  "findAllOptionsWrapper m options =
     (case handleEmptyOptions m options of
        Inl e \<Rightarrow> Inl e
      | Inr o1 \<Rightarrow>
          (case handleEmptyWhere m (Some o1) of
             Inl e \<Rightarrow> Inl e
           | Inr o2 \<Rightarrow> filterOutInvalidSelectValues m (handleEmptyRelations m o2)))"

definition findOneOptionsWrapper :: "entity_metadata \<Rightarrow> FindManyOptions option \<Rightarrow> thrown + FindManyOptions" where
  "findOneOptionsWrapper m options =
     (case handleEmptyOptions m options of
        Inl e \<Rightarrow> Inl e
      | Inr o1 \<Rightarrow> filterOutInvalidSelectValues m (handleEmptyRelations m (Some o1)))"

text \<open>
  \<^verbatim>\<open>Query.findOptions(query, where, fallback_order_column?)\<close>: the method of the class.
\<close>

fun listField :: "qvalue option \<Rightarrow> qvalue option" where
  "listField None = None"
| "listField (Some (Str s)) = (if s = [] then None else Some (Arr (split_on CHR '','' s)))"
| "listField (Some (Arr xs)) = Some (Arr xs)"

definition Query_findOptions ::
  "query_options \<Rightarrow> where_clause \<Rightarrow> string option \<Rightarrow> FindManyOptions" where
  "Query_findOptions query wh fallback_order_column =
     \<lparr>o_take = Some (case q_limit query of None \<Rightarrow> 20 | Some l \<Rightarrow> l),
      o_skip = Some (case q_offset query of None \<Rightarrow> 0 | Some d \<Rightarrow> d),
      o_order = Some (orderOf query
        [(case fallback_order_column of None \<Rightarrow> ''created_at'' | Some c \<Rightarrow> c, ''DESC'')]),
      o_select = listField (q_select query),
      o_relations = map_option RelNames (listField (q_relations query)),
      o_where = Some wh\<rparr>"

definition Query_findOneOptions :: "query_options \<Rightarrow> where_clause \<Rightarrow> FindManyOptions" where
  "Query_findOneOptions query wh =
     emptyOptions\<lparr>o_where := Some wh,
                  o_relations := map_option RelNames (listField (q_relations query)),
                  o_select := listField (q_select query)\<rparr>"

section \<open>Query.ts: the filter builder\<close>

text \<open>
  The enum \<^verbatim>\<open>ComparisonOperator\<close> and the utility \<^verbatim>\<open>Enums.getKeyName\<close> belong to the
  package \<^verbatim>\<open>@juicyllama/utils\<close>, outside this repository. The members are the ones the
  switch of \<^verbatim>\<open>mapComparisonOperatorToTypeORMFindOperators\<close> names, in that order. The
  string value of each member is a parameter \<open>vals\<close> of the functions below.
\<close>

datatype ComparisonOperator = GT | GTE | LT | LTE | EQ | NE | IS | NNULL

definition enumKeys :: "ComparisonOperator list" where
  "enumKeys = [GT, GTE, LT, LTE, EQ, NE, IS, NNULL]"

fun keyName :: "ComparisonOperator \<Rightarrow> string" where
  "keyName GT = ''GT''"
| "keyName GTE = ''GTE''"
| "keyName LT = ''LT''"
| "keyName LTE = ''LTE''"
| "keyName EQ = ''EQ''"
| "keyName NE = ''NE''"
| "keyName IS = ''IS''"
| "keyName NNULL = ''NNULL''"

text \<open>
  Modelled from the spec: \<^verbatim>\<open>Enums.getKeyName(ComparisonOperator, value)\<close> of
  \<^verbatim>\<open>@juicyllama/utils\<close> is not in the sources. The builder recognizes an operator by
  the string that stands before the colon: the lookup gives the name of the first member
  of the enum whose value is that string, and \<^verbatim>\<open>undefined\<close> (here \<open>None\<close>) when no
  member has it or when the value looked up is itself \<^verbatim>\<open>undefined\<close>.
\<close>

definition Enums_getKeyName ::
  "(ComparisonOperator \<Rightarrow> string) \<Rightarrow> string option \<Rightarrow> ComparisonOperator option" where
  "Enums_getKeyName vals v =
     (case v of None \<Rightarrow> None | Some s \<Rightarrow> find (\<lambda>k. vals k = s) enumKeys)"

text \<open>\<^verbatim>\<open>ComparisonOperator[name]\<close>: the value of the member called \<open>name\<close>.\<close>

definition enumMember :: "(ComparisonOperator \<Rightarrow> string) \<Rightarrow> string \<Rightarrow> string option" where
  "enumMember vals name = map_option vals (find (\<lambda>k. keyName k = name) enumKeys)"

text \<open>
  \<^verbatim>\<open>mapComparisonOperatorToTypeORMFindOperators(op, value)\<close>; the default branch of the
  switch is not reachable for a member of the enum.
\<close>

fun mapComparisonOperatorToTypeORMFindOperators :: "ComparisonOperator \<Rightarrow> jsval \<Rightarrow> findop" where
  "mapComparisonOperatorToTypeORMFindOperators GT v = MoreThan v"
| "mapComparisonOperatorToTypeORMFindOperators GTE v = MoreThanOrEqual v"
| "mapComparisonOperatorToTypeORMFindOperators LT v = LessThan v"
| "mapComparisonOperatorToTypeORMFindOperators LTE v = LessThanOrEqual v"
| "mapComparisonOperatorToTypeORMFindOperators EQ v = Equal v"
| "mapComparisonOperatorToTypeORMFindOperators NE v = NotOp (Equal v)"
| "mapComparisonOperatorToTypeORMFindOperators IS v = IsNull"
| "mapComparisonOperatorToTypeORMFindOperators NNULL v = NotOp IsNull"

text \<open>\<^verbatim>\<open>splitStringByFirstColon\<close>: one or two parts.\<close>

definition splitStringByFirstColon :: "string \<Rightarrow> string list" where
  "splitStringByFirstColon inputString =
     (if CHR '':'' \<in> set inputString
      then [takeWhile (\<lambda>c. c \<noteq> CHR '':'') inputString,
            tl (dropWhile (\<lambda>c. c \<noteq> CHR '':'') inputString)]
      else [inputString])"

text \<open>\<^verbatim>\<open>castArray(value)\<close> and the value as a property of a where object.\<close>

fun castArray :: "qvalue \<Rightarrow> string list" where
  "castArray (Str s) = [s]"
| "castArray (Arr xs) = xs"

fun rawValue :: "qvalue \<Rightarrow> wval" where
  "rawValue (Str s) = WVal (VStr s)"
| "rawValue (Arr xs) = WStrs xs"

text \<open>
  The reducer over the values of one field: \<^verbatim>\<open>[operator, lookupValue]\<close> are the first
  two parts of the split (the second is \<^verbatim>\<open>undefined\<close> without a colon); the operator is
  looked up by value, and failing that the whole value is looked up by member name.
\<close>

definition lookupStep ::
  "(ComparisonOperator \<Rightarrow> string) \<Rightarrow> findop list \<Rightarrow> string \<Rightarrow> findop list" where
  "lookupStep vals memo currentValue =
     (let parts = splitStringByFirstColon currentValue;
          operator = hd parts;
          lookupValue = (case tl parts of [] \<Rightarrow> VUndef | v # _ \<Rightarrow> VStr v);
          opKeyName =
            (case Enums_getKeyName vals (Some (toUpperCase operator)) of
               Some k \<Rightarrow> Some k
             | None \<Rightarrow> Enums_getKeyName vals (enumMember vals (toUpperCase currentValue)))
      in case opKeyName of
           Some k \<Rightarrow> memo @ [mapComparisonOperatorToTypeORMFindOperators k lookupValue]
         | None \<Rightarrow> memo)"

definition fieldLookupWhere :: "(ComparisonOperator \<Rightarrow> string) \<Rightarrow> qvalue \<Rightarrow> findop list" where
  "fieldLookupWhere vals v = foldl (lookupStep vals) [] (castArray v)"

definition queryValue :: "(ComparisonOperator \<Rightarrow> string) \<Rightarrow> qvalue \<Rightarrow> wval" where
  "queryValue vals v =
     (let ops = fieldLookupWhere vals v
      in if length ops = 1 then WOp (hd ops)
         else if length ops > 0 then WOp (AndOp ops)
         else rawValue v)"

text \<open>
  \<^verbatim>\<open>createWhereRelations(keyString, value, relations)\<close>: the nested object along the
  dotted key, empty unless the first segment is a relation. Each level is built by the
  assignment \<^verbatim>\<open>current[key] = ...\<close>; for the segment \<^verbatim>\<open>__proto__\<close> that assignment
  goes to the prototype setter and creates no property of the object, so the object of
  that level stays empty.
\<close>

fun nestKeys :: "string list \<Rightarrow> wval \<Rightarrow> whereobj" where
  "nestKeys [] v = []"
| "nestKeys [k] v = (if k = ''__proto__'' then [] else [(k, v)])"
| "nestKeys (k # ks) v = (if k = ''__proto__'' then [] else [(k, WObj (nestKeys ks v))])"

definition createWhereRelations :: "string \<Rightarrow> wval \<Rightarrow> string list \<Rightarrow> whereobj" where
  "createWhereRelations keyString v rels =
     (let keys = split_on CHR ''.'' keyString
      in if hd keys \<in> set rels then nestKeys keys v else [])"

text \<open>
  The test of the loop: \<^verbatim>\<open>columns.find(c => c.propertyName === k) ||
  relationsProperty.find(r => r === k)\<close>. The second \<^verbatim>\<open>find\<close> returns the name itself,
  which is falsy when it is the empty string.
\<close>

definition isDeclared :: "entity_metadata \<Rightarrow> string \<Rightarrow> bool" where
  "isDeclared m k =
     (find (\<lambda>c. propertyName c = k) (columns m) \<noteq> None \<or>
      (case find (\<lambda>r. r = k) (relations m) of None \<Rightarrow> False | Some r \<Rightarrow> r \<noteq> []))"

text \<open>The body of the loop over the entries of the query.\<close>

definition whereStep ::
  "(ComparisonOperator \<Rightarrow> string) \<Rightarrow> entity_metadata \<Rightarrow> (string \<times> qvalue) \<Rightarrow> whereobj \<Rightarrow> whereobj" where
  "whereStep vals m entry whereBase =
     (case entry of (key, v) \<Rightarrow>
        let isRelation = (CHR ''.'' \<in> set key);
            k = (if isRelation then hd (split_on CHR ''.'' key) else key)
        in if isDeclared m k
           then (if isRelation
                 then spread whereBase (createWhereRelations key (queryValue vals v) (relations m))
                 else AList.update key (queryValue vals v) whereBase)
           else whereBase)"

definition whereBaseOf ::
  "(ComparisonOperator \<Rightarrow> string) \<Rightarrow> entity_metadata \<Rightarrow> (string \<times> qvalue) list option \<Rightarrow> whereobj" where
  "whereBaseOf vals m query =
     (case query of None \<Rightarrow> [] | Some q \<Rightarrow> fold (whereStep vals m) q [])"

text \<open>
  \<^verbatim>\<open>x?.length === 1 && x[0] === 'undefined'\<close> on a \<^verbatim>\<open>string | string[]\<close>: for a string,
  \<^verbatim>\<open>x[0]\<close> is its first character.
\<close>

fun isUndefinedMarker :: "qvalue \<Rightarrow> bool" where
  "isUndefinedMarker (Str s) = (length s = 1 \<and> [s ! 0] = ''undefined'')"
| "isUndefinedMarker (Arr xs) = (length xs = 1 \<and> xs ! 0 = ''undefined'')"

text \<open>\<^verbatim>\<open>if (query?.key?.length === 1 && query?.key[0] === 'undefined') delete query.key\<close>\<close>

definition dropUndefinedMarker :: "string \<Rightarrow> (string \<times> qvalue) list option \<Rightarrow> (string \<times> qvalue) list option" where
  "dropUndefinedMarker key query =
     (case query of
        None \<Rightarrow> None
      | Some q \<Rightarrow>
          (case map_of q key of
             None \<Rightarrow> Some q
           | Some v \<Rightarrow> if isUndefinedMarker v then Some (AList.delete key q) else Some q))"

text \<open>\<^verbatim>\<open>xs.join(' ')\<close>\<close>

fun joinSpace :: "string list \<Rightarrow> string" where
  "joinSpace [] = []"
| "joinSpace [x] = x"
| "joinSpace (x # xs) = x @ '' '' @ joinSpace xs"

fun searchValue :: "qvalue \<Rightarrow> string" where
  "searchValue (Arr xs) = joinSpace xs"
| "searchValue (Str s) = s"

definition searchClause :: "whereobj \<Rightarrow> string list \<Rightarrow> string \<Rightarrow> string \<Rightarrow> whereobj" where
  "searchClause whereBase rels sv search =
     spread whereBase
       (if CHR ''.'' \<in> set search
        then createWhereRelations search (WOp (Like (''%'' @ sv @ ''%''))) rels
        else [(search, WOp (Like (''%'' @ sv @ ''%'')))])"

record buildWhere_options =
  bw_repository :: entity_metadata
  bw_query :: "(string \<times> qvalue) list option"
  bw_account_id :: "int option"
  bw_account_ids :: "int list option"
  bw_search_fields :: "string list option"

text \<open>
  \<^verbatim>\<open>Query.buildWhere(options)\<close>. The function deletes properties of the query object
  it was given, so the model returns the where clause together with the query as the
  caller finds it afterwards.
\<close>

definition buildWhere ::
  "(ComparisonOperator \<Rightarrow> string) \<Rightarrow> buildWhere_options \<Rightarrow>
     where_clause \<times> (string \<times> qvalue) list option" where
  "buildWhere vals options =
     (let m = bw_repository options;
          whereBase = whereBaseOf vals m (bw_query options);
          query1 = dropUndefinedMarker ''search'' (bw_query options);
          search = (case query1 of None \<Rightarrow> None | Some q \<Rightarrow> map_of q ''search'')
      in case search of
           None \<Rightarrow> (WhereOne whereBase, query1)
         | Some sv \<Rightarrow>
             (case bw_search_fields options of
                None \<Rightarrow> (WhereOne whereBase, query1)
              | Some search_fields \<Rightarrow>
                  if \<not> qtruthy sv then (WhereOne whereBase, query1)
                  else (WhereMany (map (searchClause whereBase (relations m) (searchValue sv)) search_fields),
                        dropUndefinedMarker ''relations'' query1)))"

section \<open>The repository handle\<close>

text \<open>
  The SQL statements that the helpers send through \<^verbatim>\<open>repository.query\<close>, one
  constructor for each template string of Query.ts:
  \<^verbatim>\<open>DELETE FROM t\<close>, \<^verbatim>\<open>ALTER TABLE t AUTO_INCREMENT = 1\<close>, \<^verbatim>\<open>DROP TABLE IF EXISTS n\<close>,
  \<^verbatim>\<open>CREATE TABLE n LIKE t\<close>, \<^verbatim>\<open>INSERT INTO n SELECT * FROM t\<close> and
  \<^verbatim>\<open>RENAME TABLE a TO b, c TO d\<close>.
\<close>

datatype sql =
    DeleteFrom string
  | ResetAutoIncrement string
  | DropTableIfExists string
  | CreateTableLike string string
  | InsertSelectAll string string
  | RenameTable "(string \<times> string) list"

text \<open>
  The repository of the ORM is outside this repository: its operations are fields of the
  handle, each a function of the database state \<open>'db\<close> that returns the new state and
  either the thrown value or the result. \<open>repo_save\<close> is \<^verbatim>\<open>repository.save(repository.create(data))\<close>,
  \<open>repo_insertOrUpdate\<close> is the query builder's
  \<^verbatim>\<open>insert().into(table).values(data).orUpdate(fields, conflict).execute()\<close> and returns
  the identifiers of the insert result, \<open>repo_selectWhere\<close> is
  \<^verbatim>\<open>createQueryBuilder().where(w).select(expr).execute()\<close>.
\<close>

record 'db repository =
  metadata :: entity_metadata
  repo_save :: "'db \<Rightarrow> row \<Rightarrow> 'db \<times> (thrown + row)"
  repo_findOne :: "'db \<Rightarrow> FindManyOptions \<Rightarrow> 'db \<times> (thrown + row option)"
  repo_find :: "'db \<Rightarrow> FindManyOptions \<Rightarrow> 'db \<times> (thrown + row list)"
  repo_count :: "'db \<Rightarrow> FindManyOptions \<Rightarrow> 'db \<times> (thrown + int)"
  repo_softRemove :: "'db \<Rightarrow> row \<Rightarrow> 'db \<times> (thrown + unit)"
  repo_remove :: "'db \<Rightarrow> row \<Rightarrow> 'db \<times> (thrown + unit)"
  repo_query :: "'db \<Rightarrow> sql \<Rightarrow> 'db \<times> (thrown + row list)"
  repo_insertOrUpdate :: "'db \<Rightarrow> row \<Rightarrow> string list \<Rightarrow> string list \<Rightarrow> 'db \<times> (thrown + row list)"
  repo_selectWhere :: "'db \<Rightarrow> where_clause option \<Rightarrow> string \<Rightarrow> 'db \<times> (thrown + row list)"

text \<open>
  Sequencing of awaited calls: a thrown value ends the sequence and is passed on with
  the state reached.
\<close>

definition andThen ::
  "'db \<times> (thrown + 'a) \<Rightarrow> ('db \<Rightarrow> 'a \<Rightarrow> 'db \<times> (thrown + 'b)) \<Rightarrow> 'db \<times> (thrown + 'b)" where
  "andThen r f = (case r of (db, Inl e) \<Rightarrow> (db, Inl e) | (db, Inr a) \<Rightarrow> f db a)"

text \<open>A value inside a template literal.\<close>

fun digitsOf :: "nat \<Rightarrow> string" where
  "digitsOf n =
     (if n < 10 then [''0123456789'' ! n]
      else digitsOf (n div 10) @ [''0123456789'' ! (n mod 10)])"

fun jsString :: "jsval \<Rightarrow> string" where
  "jsString VUndef = ''undefined''"
| "jsString VNull = ''null''"
| "jsString (VBool b) = (if b then ''true'' else ''false'')"
| "jsString (VNum n) = (if n < 0 then CHR ''-'' # digitsOf (nat (- n)) else digitsOf (nat n))"
| "jsString (VStr s) = s"

section \<open>Query.ts: single-record operations\<close>

definition raw :: "'db repository \<Rightarrow> 'db \<Rightarrow> sql \<Rightarrow> 'db \<times> (thrown + row list)" where
  "raw repository db q = repo_query repository db q"

text \<open>\<^verbatim>\<open>Query.getPrimaryKey\<close>, \<^verbatim>\<open>Query.getRecordId\<close> and \<^verbatim>\<open>Query.getRelations\<close>.\<close>

definition Query_getPrimaryKey :: "entity_metadata \<Rightarrow> thrown + string" where
  "Query_getPrimaryKey m =
     (case find isPrimary (columns m) of
        None \<Rightarrow> Inl (JsError ''no primary key was found'')
      | Some c \<Rightarrow>
          if propertyName c = [] then Inl (JsError ''no primary key was found'')
          else Inr (propertyName c))"

definition getRecordId :: "entity_metadata \<Rightarrow> row \<Rightarrow> thrown + jsval" where
  "getRecordId m record =
     (case Query_getPrimaryKey m of Inl e \<Rightarrow> Inl e | Inr pk \<Rightarrow> Inr (getProp record pk))"

definition getRelations :: "entity_metadata \<Rightarrow> (string \<times> bool) list" where
  "getRelations m = fold (\<lambda>relation result. AList.update relation True result) (relations m) []"

definition findOne ::
  "'db repository \<Rightarrow> 'db \<Rightarrow> FindManyOptions option \<Rightarrow> 'db \<times> (thrown + row option)" where
  "findOne repository db options =
     (case findOneOptionsWrapper (metadata repository) options of
        Inl e \<Rightarrow> (db, Inl e)
      | Inr opts \<Rightarrow> repo_findOne repository db opts)"

text \<open>
  \<^verbatim>\<open>findOneById\<close>: the primary key is read first (for the log line); the relations asked
  for are used when there are any, all declared relations otherwise.
\<close>

definition findOneById ::
  "'db repository \<Rightarrow> 'db \<Rightarrow> jsval \<Rightarrow> string list option \<Rightarrow> 'db \<times> (thrown + row option)" where
  "findOneById repository db ident rels =
     (case Query_getPrimaryKey (metadata repository) of
        Inl e \<Rightarrow> (db, Inl e)
      | Inr pk \<Rightarrow>
          findOne repository db
            (Some (emptyOptions\<lparr>
               o_where := Some (WhereOne [(pk, WVal ident)]),
               o_relations := Some
                 (case rels of
                    None \<Rightarrow> RelFlags (getRelations (metadata repository))
                  | Some rs \<Rightarrow>
                      if rs = [] then RelFlags (getRelations (metadata repository))
                      else RelNames (Arr rs))\<rparr>)))"

text \<open>
  \<^verbatim>\<open>create\<close>: save, then fetch the record again when relations were asked for (the fetch
  can come back \<^verbatim>\<open>null\<close>, here \<open>None\<close>). The catch block logs and throws the same value.
\<close>

definition create ::
  "'db repository \<Rightarrow> 'db \<Rightarrow> row \<Rightarrow> string list \<Rightarrow> 'db \<times> (thrown + row option)" where
  "create repository db data rels =
     andThen (repo_save repository db data) (\<lambda>db1 result.
       if rels \<noteq> []
       then (case getRecordId (metadata repository) result of
               Inl e \<Rightarrow> (db1, Inl e)
             | Inr ident \<Rightarrow> findOneById repository db1 ident (Some rels))
       else (db1, Inr (Some result)))"

text \<open>
  \<^verbatim>\<open>upsert\<close>: every field of the data but the dedup field is updated on a conflict on the
  dedup field.
\<close>

definition upsert ::
  "'db repository \<Rightarrow> 'db \<Rightarrow> row \<Rightarrow> string \<Rightarrow> 'db \<times> (thrown + row list)" where
  "upsert repository db data dedup_field =
     repo_insertOrUpdate repository db data
       (filter (\<lambda>field. field \<noteq> dedup_field) (map fst data)) [dedup_field]"

definition findAll ::
  "'db repository \<Rightarrow> 'db \<Rightarrow> FindManyOptions option \<Rightarrow> 'db \<times> (thrown + row list)" where
  "findAll repository db options =
     (case findAllOptionsWrapper (metadata repository) options of
        Inl e \<Rightarrow> (db, Inl e)
      | Inr opts \<Rightarrow> repo_find repository db opts)"

text \<open>
  \<^verbatim>\<open>update\<close>: the record id is read from the payload before anything is written; the
  catch block logs and throws the same value.
\<close>

definition update ::
  "'db repository \<Rightarrow> 'db \<Rightarrow> row \<Rightarrow> string list \<Rightarrow> 'db \<times> (thrown + row)" where
  "update repository db data rels =
     (case Query_getPrimaryKey (metadata repository) of
        Inl e \<Rightarrow> (db, Inl e)
      | Inr pk \<Rightarrow>
          if \<not> truthy (getProp data pk)
          then (db, Inl (JsError (''Primary key '' @ pk @ '' missing from update to ''
                                  @ tableName (metadata repository))))
          else andThen (repo_save repository db data) (\<lambda>db1 entity.
                 andThen (findOneById repository db1 (getProp data pk) (Some rels))
                   (\<lambda>db2 updatedRecord.
                      case updatedRecord of
                        None \<Rightarrow>
                          (db2, Inl (JsError (''Updated record '' @ tableName (metadata repository)
                             @ '' with id '' @ jsString (getProp data pk) @ '' not found'')))
                      | Some r \<Rightarrow> (db2, Inr r))))"

definition count ::
  "'db repository \<Rightarrow> 'db \<Rightarrow> FindManyOptions option \<Rightarrow> 'db \<times> (thrown + int)" where
  "count repository db options =
     (case findAllOptionsWrapper (metadata repository) options of
        Inl e \<Rightarrow> (db, Inl e)
      | Inr opts \<Rightarrow> repo_count repository db opts)"

text \<open>
  \<^verbatim>\<open>sum\<close> and \<^verbatim>\<open>avg\<close>: the first row of the aggregate query is read (a missing row is a
  \<^verbatim>\<open>TypeError\<close>); \<open>round2\<close> stands for \<^verbatim>\<open>Number(Number(x).toFixed(2))\<close>.
\<close>

definition aggregate ::
  "(jsval \<Rightarrow> jsval) \<Rightarrow> 'db repository \<Rightarrow> 'db \<Rightarrow> string \<Rightarrow> string \<Rightarrow> FindManyOptions option
     \<Rightarrow> 'db \<times> (thrown + jsval)" where
  "aggregate round2 repository db expr alias options =
     (case findAllOptionsWrapper (metadata repository) options of
        Inl e \<Rightarrow> (db, Inl e)
      | Inr opts \<Rightarrow>
          andThen (repo_selectWhere repository db (o_where opts) expr) (\<lambda>db1 result.
            case result of
              [] \<Rightarrow> (db1, Inl (JsError ''Cannot read properties of undefined''))
            | r # _ \<Rightarrow> (db1, Inr (round2 (getProp r alias)))))"

definition Query_sum ::
  "(jsval \<Rightarrow> jsval) \<Rightarrow> 'db repository \<Rightarrow> 'db \<Rightarrow> string \<Rightarrow> FindManyOptions option
     \<Rightarrow> 'db \<times> (thrown + jsval)" where
  "Query_sum round2 repository db metric options =
     aggregate round2 repository db (''SUM('' @ metric @ '') as sum'') ''sum'' options"

definition Query_avg ::
  "(jsval \<Rightarrow> jsval) \<Rightarrow> 'db repository \<Rightarrow> 'db \<Rightarrow> string \<Rightarrow> FindManyOptions option
     \<Rightarrow> 'db \<times> (thrown + jsval)" where
  "Query_avg round2 repository db metric options =
     aggregate round2 repository db (''AVG('' @ metric @ '') as average'') ''average'' options"

definition remove :: "'db repository \<Rightarrow> 'db \<Rightarrow> row \<Rightarrow> 'db \<times> (thrown + row)" where
  "remove repository db record =
     andThen (repo_softRemove repository db record) (\<lambda>db1 u. (db1, Inr record))"

definition purge :: "'db repository \<Rightarrow> 'db \<Rightarrow> row \<Rightarrow> 'db \<times> (thrown + unit)" where
  "purge repository db record = repo_remove repository db record"

section \<open>Query.ts: table operations\<close>

definition truncate :: "'db repository \<Rightarrow> 'db \<Rightarrow> 'db \<times> (thrown + unit)" where
  "truncate repository db =
     andThen (raw repository db (DeleteFrom (tableName (metadata repository)))) (\<lambda>db1 r1.
       andThen (raw repository db1 (ResetAutoIncrement (tableName (metadata repository))))
         (\<lambda>db2 r2. (db2, Inr ())))"

definition dropTable :: "'db repository \<Rightarrow> 'db \<Rightarrow> string \<Rightarrow> 'db \<times> (thrown + unit)" where
  "dropTable repository db table_name =
     andThen (raw repository db (DropTableIfExists table_name)) (\<lambda>db1 r. (db1, Inr ()))"

text \<open>\<^verbatim>\<open>table_name ?? repository.metadata.tableName + '_COPY'\<close>\<close>

definition copyName :: "'db repository \<Rightarrow> string option \<Rightarrow> string" where
  "copyName repository table_name =
     (case table_name of None \<Rightarrow> tableName (metadata repository) @ ''_COPY'' | Some n \<Rightarrow> n)"

definition copyTable :: "'db repository \<Rightarrow> 'db \<Rightarrow> string option \<Rightarrow> 'db \<times> (thrown + unit)" where
  "copyTable repository db table_name =
     andThen (dropTable repository db (copyName repository table_name)) (\<lambda>db1 u.
       andThen (raw repository db1
                  (CreateTableLike (copyName repository table_name) (tableName (metadata repository))))
         (\<lambda>db2 r2.
            andThen (raw repository db2
                       (InsertSelectAll (copyName repository table_name) (tableName (metadata repository))))
              (\<lambda>db3 r3. (db3, Inr ()))))"

definition restoreTable :: "'db repository \<Rightarrow> 'db \<Rightarrow> string option \<Rightarrow> 'db \<times> (thrown + unit)" where
  "restoreTable repository db table_name =
     andThen (raw repository db
                (RenameTable
                   [(tableName (metadata repository), tableName (metadata repository) @ ''_DELETE''),
                    (copyName repository table_name, tableName (metadata repository))]))
       (\<lambda>db1 r. dropTable repository db1 (tableName (metadata repository) @ ''_DELETE''))"

section \<open>Query.ts: bulk import\<close>

text \<open>The result object each loop starts from; only the delete loop starts without an error list.\<close>

definition initialResult :: "nat \<Rightarrow> string list option \<Rightarrow> BulkUploadResponse" where
  "initialResult n errs =
     \<lparr>b_total = n, b_processed = 0, b_created = 0, b_updated = 0, b_deleted = 0,
      b_errored = 0, b_errors = errs, b_ids = []\<rparr>"

text \<open>
  The catch block of the three loops:
  \<^verbatim>\<open>result.errored++; result.errors ??= []; result.errors.push(message)\<close>.
\<close>

definition catchRow :: "thrown \<Rightarrow> BulkUploadResponse \<Rightarrow> BulkUploadResponse" where
  "catchRow e result =
     result\<lparr>b_errored := b_errored result + 1,
            b_errors := Some ((case b_errors result of None \<Rightarrow> [] | Some es \<Rightarrow> es)
                               @ [errorMessage e])\<rparr>"

definition countProcessed :: "BulkUploadResponse \<Rightarrow> BulkUploadResponse" where
  "countProcessed result = result\<lparr>b_processed := b_processed result + 1\<rparr>"

text \<open>
  The try block of \<^verbatim>\<open>createBulkRecords\<close> up to the value pushed on \<^verbatim>\<open>ids\<close>: the record
  is created without relations, then the primary key is read and looked up in the entity.
\<close>

definition createTry :: "'db repository \<Rightarrow> 'db \<Rightarrow> row \<Rightarrow> 'db \<times> (thrown + jsval)" where
  "createTry repository db record =
     andThen (create repository db record []) (\<lambda>db1 entity.
       case Query_getPrimaryKey (metadata repository) of
         Inl e \<Rightarrow> (db1, Inl e)
       | Inr pk \<Rightarrow>
           (case entity of
              None \<Rightarrow> (db1, Inl (JsError ''Cannot read properties of null''))
            | Some en \<Rightarrow> (db1, Inr (getProp en pk))))"

definition createBulkStep ::
  "'db repository \<Rightarrow> row \<Rightarrow> 'db \<times> BulkUploadResponse \<Rightarrow> 'db \<times> BulkUploadResponse" where
  "createBulkStep repository record s =
     (case s of (db, result) \<Rightarrow>
        (case createTry repository db record of
           (db1, Inr ident) \<Rightarrow>
             (db1, countProcessed (result\<lparr>b_ids := b_ids result @ [ident],
                                          b_created := b_created result + 1\<rparr>))
         | (db1, Inl e) \<Rightarrow> (db1, countProcessed (catchRow e result))))"

definition createBulkRecords ::
  "'db repository \<Rightarrow> 'db \<Rightarrow> row list \<Rightarrow> 'db \<times> BulkUploadResponse" where
  "createBulkRecords repository db data =
     fold (createBulkStep repository) data (db, initialResult (length data) (Some []))"

text \<open>The where object \<^verbatim>\<open>{ [dedup_field]: record[dedup_field] }\<close> of the lookups.\<close>

definition dedupOptions :: "string \<Rightarrow> row \<Rightarrow> FindManyOptions option" where
  "dedupOptions dedup_field record =
     Some (emptyOptions\<lparr>o_where := Some (WhereOne [(dedup_field, WVal (getProp record dedup_field))])\<rparr>)"

text \<open>
  The try block of \<^verbatim>\<open>upsertBulkRecords\<close>: it counts the row as updated or created
  before it reads the identifier, so it returns the result reached together with the
  value thrown, if any.
\<close>

definition upsertTry ::
  "'db repository \<Rightarrow> string \<Rightarrow> 'db \<Rightarrow> BulkUploadResponse \<Rightarrow> row
     \<Rightarrow> 'db \<times> BulkUploadResponse \<times> thrown option" where
  "upsertTry repository dedup_field db result record =
     (case findOne repository db (dedupOptions dedup_field record) of
        (db1, Inl e) \<Rightarrow> (db1, result, Some e)
      | (db1, Inr r) \<Rightarrow>
          (case upsert repository db1 record dedup_field of
             (db2, Inl e) \<Rightarrow> (db2, result, Some e)
           | (db2, Inr identifiers) \<Rightarrow>
               (let result1 = (if r \<noteq> None then result\<lparr>b_updated := b_updated result + 1\<rparr>
                               else result\<lparr>b_created := b_created result + 1\<rparr>)
                in case Query_getPrimaryKey (metadata repository) of
                     Inl e \<Rightarrow> (db2, result1, Some e)
                   | Inr pk \<Rightarrow>
                       (case identifiers of
                          [] \<Rightarrow> (db2, result1, Some (JsError ''Cannot read properties of undefined''))
                        | i # _ \<Rightarrow> (db2, result1\<lparr>b_ids := b_ids result1 @ [getProp i pk]\<rparr>, None)))))"

definition upsertBulkStep ::
  "'db repository \<Rightarrow> string \<Rightarrow> row \<Rightarrow> 'db \<times> BulkUploadResponse \<Rightarrow> 'db \<times> BulkUploadResponse" where
  "upsertBulkStep repository dedup_field record s =
     (case s of (db, result) \<Rightarrow>
        (case upsertTry repository dedup_field db result record of
           (db1, result1, None) \<Rightarrow> (db1, countProcessed result1)
         | (db1, result1, Some e) \<Rightarrow> (db1, countProcessed (catchRow e result1))))"

definition upsertBulkRecords ::
  "'db repository \<Rightarrow> 'db \<Rightarrow> row list \<Rightarrow> string \<Rightarrow> 'db \<times> BulkUploadResponse" where
  "upsertBulkRecords repository db data dedup_field =
     fold (upsertBulkStep repository dedup_field) data (db, initialResult (length data) (Some []))"

text \<open>The try block of \<^verbatim>\<open>deleteBulkRecords\<close>: a row that is found is purged and counted.\<close>

definition deleteTry ::
  "'db repository \<Rightarrow> string \<Rightarrow> 'db \<Rightarrow> BulkUploadResponse \<Rightarrow> row
     \<Rightarrow> 'db \<times> BulkUploadResponse \<times> thrown option" where
  "deleteTry repository dedup_field db result record =
     (case findOne repository db (dedupOptions dedup_field record) of
        (db1, Inl e) \<Rightarrow> (db1, result, Some e)
      | (db1, Inr None) \<Rightarrow> (db1, result, None)
      | (db1, Inr (Some r)) \<Rightarrow>
          (case purge repository db1 r of
             (db2, Inl e) \<Rightarrow> (db2, result, Some e)
           | (db2, Inr u) \<Rightarrow> (db2, result\<lparr>b_deleted := b_deleted result + 1\<rparr>, None)))"

definition deleteBulkStep ::
  "'db repository \<Rightarrow> string \<Rightarrow> row \<Rightarrow> 'db \<times> BulkUploadResponse \<Rightarrow> 'db \<times> BulkUploadResponse" where
  "deleteBulkStep repository dedup_field record s =
     (case s of (db, result) \<Rightarrow>
        (case deleteTry repository dedup_field db result record of
           (db1, result1, None) \<Rightarrow> (db1, countProcessed result1)
         | (db1, result1, Some e) \<Rightarrow> (db1, countProcessed (catchRow e result1))))"

definition deleteBulkRecords ::
  "'db repository \<Rightarrow> 'db \<Rightarrow> row list \<Rightarrow> string \<Rightarrow> 'db \<times> BulkUploadResponse" where
  "deleteBulkRecords repository db data dedup_field =
     fold (deleteBulkStep repository dedup_field) data (db, initialResult (length data) None)"

text \<open>\<^verbatim>\<open>!dedup_field\<close>: the argument is absent or the empty string.\<close>

fun requireDedup :: "string option \<Rightarrow> thrown + string" where
  "requireDedup None = Inl (JsError ''Dedup field required for update'')"
| "requireDedup (Some f) =
     (if f = [] then Inl (JsError ''Dedup field required for update'') else Inr f)"

text \<open>
  \<^verbatim>\<open>Query.bulk\<close>. In REPOPULATE mode the try block holds the create loop and the drop of
  the copy; the catch block restores the table and execution goes on to the return.
  The loops return a result object in every case, so the final
  \<^verbatim>\<open>if (!result) throw\<close> never fires; the default branch of the switch is not reachable
  for a member of the enum.
\<close>

definition bulk ::
  "'db repository \<Rightarrow> 'db \<Rightarrow> row list \<Rightarrow> ImportMode \<Rightarrow> string option
     \<Rightarrow> 'db \<times> (thrown + BulkUploadResponse)" where
  "bulk repository db data import_mode dedup_field =
     (case import_mode of
        CREATE \<Rightarrow>
          (case createBulkRecords repository db data of (db1, result) \<Rightarrow> (db1, Inr result))
      | UPSERT \<Rightarrow>
          (case requireDedup dedup_field of
             Inl e \<Rightarrow> (db, Inl e)
           | Inr f \<Rightarrow>
               (case upsertBulkRecords repository db data f of (db1, result) \<Rightarrow> (db1, Inr result)))
      | DELETE \<Rightarrow>
          (case requireDedup dedup_field of
             Inl e \<Rightarrow> (db, Inl e)
           | Inr f \<Rightarrow>
               (case deleteBulkRecords repository db data f of (db1, result) \<Rightarrow> (db1, Inr result)))
      | REPOPULATE \<Rightarrow>
          andThen (copyTable repository db None) (\<lambda>db1 u1.
            andThen (truncate repository db1) (\<lambda>db2 u2.
              case createBulkRecords repository db2 data of
                (db3, result) \<Rightarrow>
                  (case dropTable repository db3 (tableName (metadata repository) @ ''_COPY'') of
                     (db4, Inr u4) \<Rightarrow> (db4, Inr result)
                   | (db4, Inl e) \<Rightarrow>
                       andThen (restoreTable repository db4 None) (\<lambda>db5 u5. (db5, Inr result))))))"

section \<open>An in-memory repository\<close>

text \<open>
  A small database to run the helpers on: a store maps table names to their rows. It
  stands in for the ORM and the SQL server in the examples below; the general theorems
  hold for every repository handle.
\<close>

type_synonym store = "(string \<times> row list) list"

fun renameAll :: "(string \<times> string) list \<Rightarrow> store \<Rightarrow> store option" where
  "renameAll [] st = Some st"
| "renameAll ((a, b) # ps) st =
     (case map_of st a of
        None \<Rightarrow> None
      | Some rows \<Rightarrow>
          if map_of st b \<noteq> None then None
          else renameAll ps (AList.update b rows (AList.delete a st)))"

text \<open>
  The statements: dropping is always possible, the others need their tables; a rename
  happens as a whole or not at all.
\<close>

fun memQuery :: "store \<Rightarrow> sql \<Rightarrow> store \<times> (thrown + row list)" where
  "memQuery st (DeleteFrom t) =
     (if map_of st t = None then (st, Inl (JsError ''Table does not exist''))
      else (AList.update t [] st, Inr []))"
| "memQuery st (ResetAutoIncrement t) =
     (if map_of st t = None then (st, Inl (JsError ''Table does not exist''))
      else (st, Inr []))"
| "memQuery st (DropTableIfExists n) = (AList.delete n st, Inr [])"
| "memQuery st (CreateTableLike n t) =
     (if map_of st t = None then (st, Inl (JsError ''Table does not exist''))
      else if map_of st n \<noteq> None then (st, Inl (JsError ''Table already exists''))
      else (AList.update n [] st, Inr []))"
| "memQuery st (InsertSelectAll n t) =
     (case (map_of st n, map_of st t) of
        (Some old, Some new) \<Rightarrow> (AList.update n (old @ new) st, Inr [])
      | _ \<Rightarrow> (st, Inl (JsError ''Table does not exist'')))"
| "memQuery st (RenameTable ps) =
     (case renameAll ps st of
        None \<Rightarrow> (st, Inl (JsError ''Cannot rename table''))
      | Some st1 \<Rightarrow> (st1, Inr []))"

text \<open>
  Saving: the column \<open>name\<close> must not be null, the primary key \<open>id\<close> is generated when
  the data has none and must be new.
\<close>

definition memSave :: "string \<Rightarrow> store \<Rightarrow> row \<Rightarrow> store \<times> (thrown + row)" where
  "memSave t st data =
     (case map_of st t of
        None \<Rightarrow> (st, Inl (JsError ''Table does not exist''))
      | Some rows \<Rightarrow>
          if \<not> truthy (getProp data ''name'') then (st, Inl (JsError ''Column name cannot be null''))
          else
            (let saved = (if truthy (getProp data ''id'') then data
                          else AList.update ''id'' (VNum (int (length rows) + 1)) data)
             in if getProp saved ''id'' \<in> set (map (\<lambda>r. getProp r ''id'') rows)
                then (st, Inl (JsError ''Duplicate entry''))
                else (AList.update t (rows @ [saved]) st, Inr saved)))"

text \<open>Matching a row: plain values by equality, \<open>MoreThan\<close> on numbers, nothing else.\<close>

fun memHolds :: "row \<Rightarrow> string \<times> wval \<Rightarrow> bool" where
  "memHolds r (k, WVal v) = (getProp r k = v)"
| "memHolds r (k, WOp (MoreThan (VNum n))) = (case getProp r k of VNum x \<Rightarrow> n < x | _ \<Rightarrow> False)"
| "memHolds r (k, w) = False"

definition memSelect :: "where_clause option \<Rightarrow> row list \<Rightarrow> row list" where
  "memSelect w rows =
     (case w of
        None \<Rightarrow> rows
      | Some (WhereOne obj) \<Rightarrow> filter (\<lambda>r. list_all (memHolds r) obj) rows
      | Some (WhereMany objs) \<Rightarrow> filter (\<lambda>r. list_ex (\<lambda>obj. list_all (memHolds r) obj) objs) rows)"

definition memFind :: "string \<Rightarrow> store \<Rightarrow> FindManyOptions \<Rightarrow> store \<times> (thrown + row list)" where
  "memFind t st opts =
     (case map_of st t of
        None \<Rightarrow> (st, Inl (JsError ''Table does not exist''))
      | Some rows \<Rightarrow> (st, Inr (memSelect (o_where opts) rows)))"

definition memFindOne :: "string \<Rightarrow> store \<Rightarrow> FindManyOptions \<Rightarrow> store \<times> (thrown + row option)" where
  "memFindOne t st opts =
     andThen (memFind t st opts) (\<lambda>st1 found.
       (st1, Inr (case found of [] \<Rightarrow> None | r # _ \<Rightarrow> Some r)))"

definition memCount :: "string \<Rightarrow> store \<Rightarrow> FindManyOptions \<Rightarrow> store \<times> (thrown + int)" where
  "memCount t st opts = andThen (memFind t st opts) (\<lambda>st1 found. (st1, Inr (int (length found))))"

definition memRemove :: "string \<Rightarrow> store \<Rightarrow> row \<Rightarrow> store \<times> (thrown + unit)" where
  "memRemove t st r =
     (case map_of st t of
        None \<Rightarrow> (st, Inl (JsError ''Table does not exist''))
      | Some rows \<Rightarrow>
          (AList.update t (filter (\<lambda>x. getProp x ''id'' \<noteq> getProp r ''id'') rows) st, Inr ()))"

definition memInsertOrUpdate ::
  "string \<Rightarrow> store \<Rightarrow> row \<Rightarrow> string list \<Rightarrow> string list \<Rightarrow> store \<times> (thrown + row list)" where
  "memInsertOrUpdate t st data fs conflict =
     (case map_of st t of
        None \<Rightarrow> (st, Inl (JsError ''Table does not exist''))
      | Some rows \<Rightarrow>
          (case find (\<lambda>r. list_all (\<lambda>c. getProp r c = getProp data c) conflict) rows of
             Some old \<Rightarrow>
               (AList.update t
                  (map (\<lambda>r. if r = old
                             then spread r (filter (\<lambda>(k, v). k \<in> set fs) data) else r) rows) st,
                Inr [[(''id'', getProp old ''id'')]])
           | None \<Rightarrow>
               andThen (memSave t st data) (\<lambda>st1 saved.
                 (st1, Inr [[(''id'', getProp saved ''id'')]]))))"

definition memRepository :: "entity_metadata \<Rightarrow> store repository" where
  "memRepository m =
     \<lparr>metadata = m,
      repo_save = memSave (tableName m),
      repo_findOne = memFindOne (tableName m),
      repo_find = memFind (tableName m),
      repo_count = memCount (tableName m),
      repo_softRemove = (\<lambda>st r. (st, Inr ())),
      repo_remove = memRemove (tableName m),
      repo_query = memQuery,
      repo_insertOrUpdate = memInsertOrUpdate (tableName m),
      repo_selectWhere = (\<lambda>st w expr. (st, Inl (JsError ''Aggregates are not supported'')))\<rparr>"

text \<open>A table of books with a primary key, two plain columns and one relation.\<close>

definition booksMetadata :: entity_metadata where
  "booksMetadata =
     \<lparr>tableName = ''books'',
      columns = [\<lparr>propertyName = ''id'', isPrimary = True\<rparr>,
                 \<lparr>propertyName = ''name'', isPrimary = False\<rparr>,
                 \<lparr>propertyName = ''price'', isPrimary = False\<rparr>],
      relations = [''author'']\<rparr>"

definition booksStore :: store where
  "booksStore =
     [(''books'', [[(''id'', VNum 1), (''name'', VStr ''Emma'')],
                   [(''id'', VNum 2), (''name'', VStr ''Ulysses'')]])]"

text \<open>The string values of the comparison operators used in the examples.\<close>

fun exampleValues :: "ComparisonOperator \<Rightarrow> string" where
  "exampleValues GT = ''GT''"
| "exampleValues GTE = ''GTE''"
| "exampleValues LT = ''LT''"
| "exampleValues LTE = ''LTE''"
| "exampleValues EQ = ''EQ''"
| "exampleValues NE = ''!EQ''"
| "exampleValues IS = ''NULL''"
| "exampleValues NNULL = ''!NULL''"

text \<open>A query object with no property at all.\<close>

definition noQuery :: query_options where
  "noQuery =
     \<lparr>q_select = None, q_relations = None, q_limit = None, q_offset = None,
      q_order_by = None, q_order_by_type = None\<rparr>"

section \<open>The rows of a bulk import, one by one\<close>

text \<open>
  One pass of the loop of a mode (REPOPULATE runs the create loop), the value its try
  block throws, if any, and the list of these values over the rows of a call, each row
  starting from the database and the result that the rows before it left.
\<close>

definition rowStep ::
  "'db repository \<Rightarrow> ImportMode \<Rightarrow> string \<Rightarrow> row \<Rightarrow> 'db \<times> BulkUploadResponse
     \<Rightarrow> 'db \<times> BulkUploadResponse" where
  "rowStep repository mode f =
     (case mode of
        CREATE \<Rightarrow> createBulkStep repository
      | UPSERT \<Rightarrow> upsertBulkStep repository f
      | DELETE \<Rightarrow> deleteBulkStep repository f
      | REPOPULATE \<Rightarrow> createBulkStep repository)"

definition createThrown :: "'db repository \<Rightarrow> 'db \<Rightarrow> row \<Rightarrow> thrown option" where
  "createThrown repository db record =
     (case createTry repository db record of (db1, Inl e) \<Rightarrow> Some e | (db1, Inr i) \<Rightarrow> None)"

definition rowThrown ::
  "'db repository \<Rightarrow> ImportMode \<Rightarrow> string \<Rightarrow> row \<Rightarrow> 'db \<times> BulkUploadResponse \<Rightarrow> thrown option" where
  "rowThrown repository mode f record s =
     (case s of (db, result) \<Rightarrow>
        (case mode of
           CREATE \<Rightarrow> createThrown repository db record
         | UPSERT \<Rightarrow> snd (snd (upsertTry repository f db result record))
         | DELETE \<Rightarrow> snd (snd (deleteTry repository f db result record))
         | REPOPULATE \<Rightarrow> createThrown repository db record))"

fun thrownTrace ::
  "'db repository \<Rightarrow> ImportMode \<Rightarrow> string \<Rightarrow> row list \<Rightarrow> 'db \<times> BulkUploadResponse
     \<Rightarrow> thrown option list" where
  "thrownTrace repository mode f [] s = []"
| "thrownTrace repository mode f (r # rs) s =
     rowThrown repository mode f r s
       # thrownTrace repository mode f rs (rowStep repository mode f r s)"

fun failureMessages :: "thrown option list \<Rightarrow> string list" where
  "failureMessages [] = []"
| "failureMessages (None # os) = failureMessages os"
| "failureMessages (Some e # os) = errorMessage e # failureMessages os"

text \<open>The error list of a result, empty while the property is absent.\<close>

definition errorList :: "BulkUploadResponse \<Rightarrow> string list" where
  "errorList result = (case b_errors result of None \<Rightarrow> [] | Some es \<Rightarrow> es)"

text \<open>The result object a mode starts from.\<close>

definition startResult :: "ImportMode \<Rightarrow> nat \<Rightarrow> BulkUploadResponse" where
  "startResult mode n = initialResult n (if mode = DELETE then None else Some [])"

text \<open>Three rows to import, the second without a name.\<close>

definition threeRows :: "row list" where
  "threeRows =
     [[(''name'', VStr ''Dune'')], [(''title'', VStr ''untitled'')], [(''name'', VStr ''Solaris'')]]"

text \<open>Find options that select two declared columns and an unknown one, and nothing else.\<close>

definition selectOptions :: FindManyOptions where
  "selectOptions = emptyOptions\<lparr>o_select := Some (Arr [''id'', ''isbn'', ''name''])\<rparr>"

text \<open>The select list without the names that are not property names of columns.\<close>

definition declaredOnly :: "entity_metadata \<Rightarrow> string list \<Rightarrow> string list" where
  "declaredOnly m xs = filter (\<lambda>s. s \<in> set (map propertyName (columns m))) xs"

text \<open>
  What \<^verbatim>\<open>handleEmptyOptions\<close> builds for a primary key \<open>pk\<close>, after
  \<^verbatim>\<open>handleEmptyRelations\<close> has added the relations.
\<close>

definition defaultOptions :: "entity_metadata \<Rightarrow> string \<Rightarrow> FindManyOptions" where
  "defaultOptions m pk =
     \<lparr>o_take = None, o_skip = None, o_order = Some [(''created_at'', ''DESC'')],
      o_select = None, o_relations = Some (RelNames (Arr (relations m))),
      o_where = Some (WhereOne [(pk, WOp (MoreThan (VNum 0)))])\<rparr>"

text \<open>
  The search value that \<^verbatim>\<open>buildWhere\<close> goes on with: the \<open>search\<close> property of the
  query unless it is the one-element array \<^verbatim>\<open>['undefined']\<close> or falsy.
\<close>

definition searchOf :: "(string \<times> qvalue) list option \<Rightarrow> qvalue option" where
  "searchOf query =
     (case query of
        None \<Rightarrow> None
      | Some q \<Rightarrow>
          (case map_of q ''search'' of
             None \<Rightarrow> None
           | Some sv \<Rightarrow> if isUndefinedMarker sv \<or> \<not> qtruthy sv then None else Some sv))"

text \<open>
  The property that a query key or a search field writes in a where object: its first
  segment.
\<close>

definition writtenProperty :: "string \<Rightarrow> string" where
  "writtenProperty k = hd (split_on CHR ''.'' k)"

text \<open>
  A where clause holds the filter \<open>x\<close> on the property \<open>key\<close>: a single where object maps
  \<open>key\<close> to \<open>x\<close>; a list of search clauses has one clause for each search field, and
  every clause whose search field does not write \<open>key\<close> maps \<open>key\<close> to \<open>x\<close>.
\<close>

definition filterHolds :: "where_clause \<Rightarrow> string list option \<Rightarrow> string \<Rightarrow> wval \<Rightarrow> bool" where
  "filterHolds w search_fields key x =
     (case w of
        WhereOne wb \<Rightarrow> map_of wb key = Some x
      | WhereMany cs \<Rightarrow>
          (case search_fields of
             None \<Rightarrow> False
           | Some fs \<Rightarrow>
               length cs = length fs
               \<and> list_all (\<lambda>(f, c). writtenProperty f \<noteq> key \<longrightarrow> map_of c key = Some x)
                    (zip fs cs)))"

section \<open>Properties of the options builder\<close>

text \<open>
  Both builders default \<open>take\<close> to 20 and \<open>skip\<close> to 0 when the query has no limit and
  no offset. Without \<open>order_by\<close> the method \<^verbatim>\<open>Query.findOptions\<close> sorts by the fallback
  column in descending direction, the free function \<^verbatim>\<open>findOptions\<close> in ascending
  direction.
\<close>

lemma Query_findOptions_defaults:
  assumes "q_limit query = None" and "q_offset query = None" and "q_order_by query = None"
  shows "o_take (Query_findOptions query wh (Some c)) = Some 20
       \<and> o_skip (Query_findOptions query wh (Some c)) = Some 0
       \<and> o_order (Query_findOptions query wh (Some c)) = Some [(c, ''DESC'')]"
  using assms by (simp add: Query_findOptions_def orderOf_def)

lemma Query_findOptions_defaults_example:
  "o_take (Query_findOptions noQuery (WhereOne []) (Some ''name'')) = Some 20
   \<and> o_skip (Query_findOptions noQuery (WhereOne []) (Some ''name'')) = Some 0
   \<and> o_order (Query_findOptions noQuery (WhereOne []) (Some ''name'')) = Some [(''name'', ''DESC'')]"
  using Query_findOptions_defaults [of noQuery "WhereOne []" "''name''"]
  by (simp add: noQuery_def)

lemma findOptions_defaults:
  assumes "q_limit query = None" and "q_offset query = None" and "q_order_by query = None"
    and "findOptions query wh c = Inr opts"
  shows "o_take opts = Some 20 \<and> o_skip opts = Some 0 \<and> o_order opts = Some [(c, ''ASC'')]"
  using assms by (auto simp add: findOptions_def orderOf_def split: sum.splits)

text \<open>
  Claim C4 at the query without limit, offset and order_by, fallback column \<open>name\<close>: the
  free function \<^verbatim>\<open>findOptions\<close> returns take 20 and skip 0 but orders by \<open>name\<close>
  ascending, where the method \<^verbatim>\<open>Query.findOptions\<close> on the same input orders by \<open>name\<close>
  descending.
\<close>

theorem findOptions_fallback_direction:
  "findOptions noQuery (WhereOne []) ''name'' =
     Inr \<lparr>o_take = Some 20, o_skip = Some 0, o_order = Some [(''name'', ''ASC'')],
          o_select = None, o_relations = None, o_where = Some (WhereOne [])\<rparr>
   \<and> Query_findOptions noQuery (WhereOne []) (Some ''name'') =
     \<lparr>o_take = Some 20, o_skip = Some 0, o_order = Some [(''name'', ''DESC'')],
      o_select = None, o_relations = None, o_where = Some (WhereOne [])\<rparr>"
  by (simp add: findOptions_def Query_findOptions_def orderOf_def noQuery_def)

section \<open>Properties of the bulk import\<close>

text \<open>
  The try blocks of the upsert and delete loops leave the counters of the catch block
  and of the loop alone; each pass of a loop counts the row as processed and records
  what its try block threw.
\<close>

lemma failureMessages_append:
  "failureMessages (xs @ ys) = failureMessages xs @ failureMessages ys"
  by (induction xs rule: failureMessages.induct) simp_all

lemma upsertTry_keeps:
  "upsertTry repo f db result r = (db1, result1, exn) \<Longrightarrow>
     b_total result1 = b_total result \<and> b_processed result1 = b_processed result
     \<and> b_errored result1 = b_errored result \<and> errorList result1 = errorList result"
  by (auto simp add: errorList_def upsertTry_def Let_def split: prod.splits sum.splits option.splits list.splits if_splits)

lemma deleteTry_keeps:
  "deleteTry repo f db result r = (db1, result1, exn) \<Longrightarrow>
     b_total result1 = b_total result \<and> b_processed result1 = b_processed result
     \<and> b_errored result1 = b_errored result \<and> errorList result1 = errorList result"
  by (auto simp add: errorList_def deleteTry_def split: prod.splits sum.splits option.splits)

lemma catchRow_fields:
  "b_total (catchRow e result) = b_total result"
  "b_processed (catchRow e result) = b_processed result"
  "b_created (catchRow e result) = b_created result"
  "b_errored (catchRow e result) = b_errored result + 1"
  "errorList (catchRow e result) = errorList result @ [errorMessage e]"
  by (simp_all add: catchRow_def errorList_def)

lemma countProcessed_fields:
  "b_total (countProcessed result) = b_total result"
  "b_processed (countProcessed result) = b_processed result + 1"
  "b_created (countProcessed result) = b_created result"
  "b_errored (countProcessed result) = b_errored result"
  "errorList (countProcessed result) = errorList result"
  by (simp_all add: countProcessed_def errorList_def)

lemma errorList_created [simp]:
  "errorList (result\<lparr>b_ids := i, b_created := c\<rparr>) = errorList result"
  by (simp add: errorList_def)

lemma createBulkStep_effect:
  assumes "createBulkStep repo r (db, result) = (db', result')"
  shows "b_total result' = b_total result \<and> b_processed result' = b_processed result + 1
       \<and> b_errored result' = b_errored result + length (failureMessages [createThrown repo db r])
       \<and> errorList result' = errorList result @ failureMessages [createThrown repo db r]
       \<and> b_created result' + b_errored result' = b_created result + b_errored result + 1"
  using assms
  by (auto simp add: createBulkStep_def createThrown_def catchRow_fields countProcessed_fields
      split: prod.splits sum.splits)

lemma upsertBulkStep_effect:
  assumes "upsertBulkStep repo f r (db, result) = (db', result')"
  shows "b_total result' = b_total result \<and> b_processed result' = b_processed result + 1
       \<and> b_errored result' = b_errored result
            + length (failureMessages [snd (snd (upsertTry repo f db result r))])
       \<and> errorList result' = errorList result
            @ failureMessages [snd (snd (upsertTry repo f db result r))]"
  using assms
  by (auto simp add: upsertBulkStep_def catchRow_fields countProcessed_fields
      split: prod.splits option.splits dest!: upsertTry_keeps)

lemma deleteBulkStep_effect:
  assumes "deleteBulkStep repo f r (db, result) = (db', result')"
  shows "b_total result' = b_total result \<and> b_processed result' = b_processed result + 1
       \<and> b_errored result' = b_errored result
            + length (failureMessages [snd (snd (deleteTry repo f db result r))])
       \<and> errorList result' = errorList result
            @ failureMessages [snd (snd (deleteTry repo f db result r))]"
  using assms
  by (auto simp add: deleteBulkStep_def catchRow_fields countProcessed_fields
      split: prod.splits option.splits dest!: deleteTry_keeps)

lemma rowStep_effect:
  assumes "rowStep repo mode f r s = s'"
  shows "b_total (snd s') = b_total (snd s) \<and> b_processed (snd s') = b_processed (snd s) + 1
       \<and> b_errored (snd s') = b_errored (snd s) + length (failureMessages [rowThrown repo mode f r s])
       \<and> errorList (snd s') = errorList (snd s) @ failureMessages [rowThrown repo mode f r s]"
proof -
  obtain db result where s: "s = (db, result)" by (cases s)
  obtain db' result' where s': "s' = (db', result')" by (cases s')
  show ?thesis
  proof (cases mode)
    case CREATE
    with assms s s' createBulkStep_effect [of repo r db result db' result'] show ?thesis
      by (simp add: rowStep_def rowThrown_def)
  next
    case UPSERT
    with assms s s' upsertBulkStep_effect [of repo f r db result db' result'] show ?thesis
      by (simp add: rowStep_def rowThrown_def)
  next
    case DELETE
    with assms s s' deleteBulkStep_effect [of repo f r db result db' result'] show ?thesis
      by (simp add: rowStep_def rowThrown_def)
  next
    case REPOPULATE
    with assms s s' createBulkStep_effect [of repo r db result db' result'] show ?thesis
      by (simp add: rowStep_def rowThrown_def)
  qed
qed

lemma fold_rowStep_effect:
  "b_total (snd (fold (rowStep repo mode f) data s)) = b_total (snd s)
   \<and> b_processed (snd (fold (rowStep repo mode f) data s)) = b_processed (snd s) + length data
   \<and> b_errored (snd (fold (rowStep repo mode f) data s))
       = b_errored (snd s) + length (failureMessages (thrownTrace repo mode f data s))
   \<and> errorList (snd (fold (rowStep repo mode f) data s))
       = errorList (snd s) @ failureMessages (thrownTrace repo mode f data s)"
proof (induction data arbitrary: s)
  case Nil
  show ?case by simp
next
  case (Cons r rs)
  have step: "b_total (snd (rowStep repo mode f r s)) = b_total (snd s)
       \<and> b_processed (snd (rowStep repo mode f r s)) = b_processed (snd s) + 1
       \<and> b_errored (snd (rowStep repo mode f r s))
            = b_errored (snd s) + length (failureMessages [rowThrown repo mode f r s])
       \<and> errorList (snd (rowStep repo mode f r s))
            = errorList (snd s) @ failureMessages [rowThrown repo mode f r s]"
    by (rule rowStep_effect) simp
  show ?case
    using Cons.IH [of "rowStep repo mode f r s"] step
    by (cases "rowThrown repo mode f r s") simp_all
qed

lemma fold_createBulkStep_created:
  "b_created (snd (fold (createBulkStep repo) data s)) + b_errored (snd (fold (createBulkStep repo) data s))
     = b_created (snd s) + b_errored (snd s) + length data"
proof (induction data arbitrary: s)
  case Nil
  show ?case by simp
next
  case (Cons r rs)
  obtain db result where s: "s = (db, result)" by (cases s)
  obtain db' result' where s': "createBulkStep repo r (db, result) = (db', result')"
    by (cases "createBulkStep repo r (db, result)")
  from createBulkStep_effect [OF s'] have
    "b_created result' + b_errored result' = b_created result + b_errored result + 1" by simp
  with Cons.IH [of "(db', result')"] s s' show ?case by simp
qed


lemma failureMessages_member:
  "Some e \<in> set t \<Longrightarrow> errorMessage e \<in> set (failureMessages t)"
  by (induction t rule: failureMessages.induct) auto

lemma failureMessages_length:
  "length (failureMessages t) = length (filter (\<lambda>out. out \<noteq> None) t)"
  by (induction t rule: failureMessages.induct) simp_all

lemma bulk_loops_as_fold:
  "createBulkRecords repo db data = fold (rowStep repo CREATE f) data (db, startResult CREATE (length data))"
  "upsertBulkRecords repo db data f = fold (rowStep repo UPSERT f) data (db, startResult UPSERT (length data))"
  "deleteBulkRecords repo db data f = fold (rowStep repo DELETE f) data (db, startResult DELETE (length data))"
  by (simp_all add: createBulkRecords_def upsertBulkRecords_def deleteBulkRecords_def rowStep_def
      startResult_def)

lemma startResult_fields:
  "b_total (startResult mode n) = n" "b_processed (startResult mode n) = 0"
  "b_errored (startResult mode n) = 0" "errorList (startResult mode n) = []"
  "b_created (startResult mode n) = 0"
  by (simp_all add: startResult_def initialResult_def errorList_def)

text \<open>
  Claim C2. A bulk import in CREATE mode, or in UPSERT or DELETE mode with a dedup field,
  always returns a result, whatever the repository does on each row: no row failure ends
  the call. On return \<open>total\<close> is the number of rows and \<open>processed\<close> equals \<open>total\<close>;
  \<open>errored\<close> is the number of rows whose try block threw, and the error list holds the
  messages of exactly these rows, in the order of the rows.
\<close>

theorem bulk_never_aborts_on_row_errors:
  assumes "mode = CREATE \<or> ((mode = UPSERT \<or> mode = DELETE) \<and> dedup_field = Some f \<and> f \<noteq> [])"
  shows "\<exists>db' res. bulk repo db data mode dedup_field = (db', Inr res)
      \<and> b_total res = length data
      \<and> b_processed res = b_total res
      \<and> b_errored res = length (filter (\<lambda>out. out \<noteq> None)
           (thrownTrace repo mode f data (db, startResult mode (length data))))
      \<and> errorList res
           = failureMessages (thrownTrace repo mode f data (db, startResult mode (length data)))"
proof -
  let ?s = "(db, startResult mode (length data))"
  let ?end = "fold (rowStep repo mode f) data ?s"
  have run: "bulk repo db data mode dedup_field = (fst ?end, Inr (snd ?end))"
    using assms
    by (auto simp add: bulk_def bulk_loops_as_fold [of repo db data f] split: prod.splits)
  have "b_total (snd ?end) = length data"
    and "b_processed (snd ?end) = length data"
    and "b_errored (snd ?end) = length (failureMessages (thrownTrace repo mode f data ?s))"
    and "errorList (snd ?end) = failureMessages (thrownTrace repo mode f data ?s)"
    using fold_rowStep_effect [of repo mode f data ?s]
    by (simp_all add: startResult_fields)
  with run show ?thesis
    by (simp add: failureMessages_length)
qed

text \<open>
  The three rows in UPSERT mode on the books: the second row has no name and fails, the
  call still processes all three.
\<close>

theorem bulk_never_aborts_on_row_errors_witness:
  "\<exists>db' res. bulk (memRepository booksMetadata) booksStore threeRows UPSERT (Some ''name'') = (db', Inr res)
      \<and> b_total res = 3 \<and> b_processed res = 3 \<and> b_errored res = 1
      \<and> errorList res = [''Column name cannot be null'']"
proof -
  have tr: "thrownTrace (memRepository booksMetadata) UPSERT ''name'' threeRows
              (booksStore, startResult UPSERT 3)
            = [None, Some (JsError ''Column name cannot be null''), None]"
    by code_simp
  have len: "length threeRows = 3"
    by (simp add: threeRows_def)
  have "UPSERT = CREATE \<or> ((UPSERT = UPSERT \<or> UPSERT = DELETE) \<and> Some ''name'' = Some ''name'' \<and> ''name'' \<noteq> [])"
    by simp
  from bulk_never_aborts_on_row_errors [OF this, of "memRepository booksMetadata" booksStore threeRows]
  show ?thesis
    by (auto simp add: tr len)
qed

text \<open>
  Claim C3. A bulk import in CREATE mode over \<open>N\<close> rows of which at least one fails
  (the try block of some row throws \<open>e\<close>) returns a result with \<open>total = N\<close>, \<open>errored\<close>
  the number of failing rows and at least 1, \<open>created = N - errored\<close>, and an error
  list that holds the message of every failing row, the one of \<open>e\<close> among them.
\<close>

theorem bulk_create_counts:
  assumes "Some e \<in> set (thrownTrace repo CREATE [] data (db, startResult CREATE (length data)))"
  shows "\<exists>db' res. bulk repo db data CREATE dedup_field = (db', Inr res)
      \<and> b_total res = length data
      \<and> b_errored res = length (filter (\<lambda>out. out \<noteq> None)
           (thrownTrace repo CREATE [] data (db, startResult CREATE (length data))))
      \<and> 1 \<le> b_errored res
      \<and> b_created res = length data - b_errored res
      \<and> errorList res
           = failureMessages (thrownTrace repo CREATE [] data (db, startResult CREATE (length data)))
      \<and> errorMessage e \<in> set (errorList res)"
proof -
  let ?s = "(db, startResult CREATE (length data))"
  let ?end = "fold (rowStep repo CREATE []) data ?s"
  let ?t = "thrownTrace repo CREATE [] data ?s"
  have run: "bulk repo db data CREATE dedup_field = (fst ?end, Inr (snd ?end))"
    by (simp add: bulk_def bulk_loops_as_fold [of repo db data "[]"] split: prod.splits)
  have total: "b_total (snd ?end) = length data"
    and errored: "b_errored (snd ?end) = length (failureMessages ?t)"
    and errs: "errorList (snd ?end) = failureMessages ?t"
    using fold_rowStep_effect [of repo CREATE "[]" data ?s]
    by (simp_all add: startResult_fields)
  have "b_created (snd ?end) + b_errored (snd ?end) = length data"
    using fold_createBulkStep_created [of repo data ?s]
    by (simp add: rowStep_def startResult_fields)
  then have created: "b_created (snd ?end) = length data - b_errored (snd ?end)"
    by simp
  have mem: "errorMessage e \<in> set (failureMessages ?t)"
    using assms by (rule failureMessages_member)
  then have "failureMessages ?t \<noteq> []" by auto
  then have pos: "1 \<le> length (failureMessages ?t)"
    by (cases "failureMessages ?t") simp_all
  from run total errored errs created mem pos show ?thesis
    by (simp add: failureMessages_length)
qed

text \<open>The three rows in CREATE mode on the books: one error, two rows created.\<close>

theorem bulk_create_counts_witness:
  "\<exists>db' res. bulk (memRepository booksMetadata) booksStore threeRows CREATE None = (db', Inr res)
      \<and> b_total res = 3 \<and> b_errored res = 1 \<and> b_created res = 2
      \<and> errorList res = [''Column name cannot be null'']"
proof -
  have tr: "thrownTrace (memRepository booksMetadata) CREATE [] threeRows
              (booksStore, startResult CREATE 3)
            = [None, Some (JsError ''Column name cannot be null''), None]"
    by code_simp
  have len: "length threeRows = 3"
    by (simp add: threeRows_def)
  have "Some (JsError ''Column name cannot be null'')
          \<in> set (thrownTrace (memRepository booksMetadata) CREATE [] threeRows
                   (booksStore, startResult CREATE (length threeRows)))"
    by (simp add: tr len)
  from bulk_create_counts [OF this, of None]
  show ?thesis
    by (auto simp add: tr len)
qed

section \<open>Properties of the option wrappers\<close>

text \<open>
  Claim C8 as stated fails for the wrapper: options that only select \<open>id\<close>, \<open>isbn\<close> and
  \<open>name\<close> on the books come back with the unknown \<open>isbn\<close> removed, but also with a where
  clause on the primary key and with the declared relations, which the options did not
  have.
\<close>

theorem wrapper_changes_other_fields:
  "findAllOptionsWrapper booksMetadata (Some selectOptions) =
     Inr (selectOptions\<lparr>o_select := Some (Arr [''id'', ''name'']),
                        o_where := Some (WhereOne [(''id'', WOp (MoreThan (VNum 0)))]),
                        o_relations := Some (RelNames (Arr [''author'']))\<rparr>)
   \<and> findAllOptionsWrapper booksMetadata (Some selectOptions) \<noteq>
     Inr (selectOptions\<lparr>o_select := Some (Arr [''id'', ''name''])\<rparr>)"
  by (simp add: findAllOptionsWrapper_def handleEmptyOptions_def handleEmptyWhere_def
      handleEmptyRelations_def filterOutInvalidSelectValues_def selectOptions_def
      emptyOptions_def pkMoreThanZero_def getPrimaryKey_def booksMetadata_def)

text \<open>
  Claim C8 as amended. For options with a select list, \<^verbatim>\<open>filterOutInvalidSelectValues\<close>
  keeps exactly the entries that are property names of declared columns and changes no
  other field. \<^verbatim>\<open>findAllOptionsWrapper\<close> filters the select list in the same way and
  leaves take, skip and order unchanged; a where clause and relations that are present
  are unchanged, an absent where clause becomes \<^verbatim>\<open>{pk: MoreThan(0)}\<close> (the call throws
  when there is no primary key) and absent relations become all declared relations.
\<close>

theorem wrapper_filters_select:
  assumes "o_select opts = Some (Arr xs)"
  shows "filterOutInvalidSelectValues m opts = Inr (opts\<lparr>o_select := Some (Arr (declaredOnly m xs))\<rparr>)
     \<and> findAllOptionsWrapper m (Some opts) =
         (case o_where opts of
            Some w \<Rightarrow>
              Inr (opts\<lparr>o_select := Some (Arr (declaredOnly m xs)),
                        o_relations := Some (case o_relations opts of
                                               None \<Rightarrow> RelNames (Arr (relations m)) | Some r \<Rightarrow> r)\<rparr>)
          | None \<Rightarrow>
              (case getPrimaryKey m of
                 Inl e \<Rightarrow> Inl e
               | Inr pk \<Rightarrow>
                   Inr (opts\<lparr>o_select := Some (Arr (declaredOnly m xs)),
                             o_where := Some (WhereOne [(pk, WOp (MoreThan (VNum 0)))]),
                             o_relations := Some (case o_relations opts of
                                               None \<Rightarrow> RelNames (Arr (relations m)) | Some r \<Rightarrow> r)\<rparr>)))
     \<and> set (declaredOnly m xs) = set xs \<inter> set (map propertyName (columns m))"
  using assms
  by (auto simp add: filterOutInvalidSelectValues_def findAllOptionsWrapper_def handleEmptyOptions_def
      handleEmptyWhere_def handleEmptyRelations_def declaredOnly_def pkMoreThanZero_def
      split: option.splits sum.splits)

text \<open>The select list \<open>id\<close>, \<open>isbn\<close>, \<open>name\<close> on the books loses \<open>isbn\<close> and nothing else changes.\<close>

theorem wrapper_filters_select_witness:
  "filterOutInvalidSelectValues booksMetadata selectOptions =
     Inr (selectOptions\<lparr>o_select := Some (Arr [''id'', ''name''])\<rparr>)"
proof -
  have sel: "o_select selectOptions = Some (Arr [''id'', ''isbn'', ''name''])"
    by (simp add: selectOptions_def)
  have d: "declaredOnly booksMetadata [''id'', ''isbn'', ''name''] = [''id'', ''name'']"
    by (simp add: declaredOnly_def booksMetadata_def)
  from wrapper_filters_select [OF sel, of booksMetadata] show ?thesis
    by (simp add: d)
qed

text \<open>
  Claim C10. With the options omitted and a primary key \<open>pk\<close>, \<^verbatim>\<open>findAllOptionsWrapper\<close>
  returns the default options: where \<^verbatim>\<open>{pk: MoreThan(0)}\<close>, order \<^verbatim>\<open>created_at DESC\<close>
  and the declared relations. \<^verbatim>\<open>findAll\<close> and \<^verbatim>\<open>count\<close> are exactly the repository's
  find and count on these options; \<^verbatim>\<open>sum\<close> and \<^verbatim>\<open>avg\<close> are exactly one aggregate query
  under the where clause \<^verbatim>\<open>{pk: MoreThan(0)}\<close>, followed by reading and rounding the
  first row. Without a primary key the four calls throw and the repository is not
  called. So no call without options reaches the repository with an empty where clause.
\<close>

theorem omitted_options_constrain_primary_key:
  "(getPrimaryKey (metadata repo) = Inr pk \<longrightarrow>
      findAllOptionsWrapper (metadata repo) None = Inr (defaultOptions (metadata repo) pk)
      \<and> o_where (defaultOptions (metadata repo) pk) = Some (WhereOne [(pk, WOp (MoreThan (VNum 0)))])
      \<and> o_order (defaultOptions (metadata repo) pk) = Some [(''created_at'', ''DESC'')]
      \<and> findAll repo db None = repo_find repo db (defaultOptions (metadata repo) pk)
      \<and> count repo db None = repo_count repo db (defaultOptions (metadata repo) pk)
      \<and> Query_sum round2 repo db metric None =
          andThen (repo_selectWhere repo db (Some (WhereOne [(pk, WOp (MoreThan (VNum 0)))]))
                     (''SUM('' @ metric @ '') as sum''))
            (\<lambda>db1 result.
               case result of
                 [] \<Rightarrow> (db1, Inl (JsError ''Cannot read properties of undefined''))
               | r # rest \<Rightarrow> (db1, Inr (round2 (getProp r ''sum''))))
      \<and> Query_avg round2 repo db metric None =
          andThen (repo_selectWhere repo db (Some (WhereOne [(pk, WOp (MoreThan (VNum 0)))]))
                     (''AVG('' @ metric @ '') as average''))
            (\<lambda>db1 result.
               case result of
                 [] \<Rightarrow> (db1, Inl (JsError ''Cannot read properties of undefined''))
               | r # rest \<Rightarrow> (db1, Inr (round2 (getProp r ''average'')))))
   \<and> (getPrimaryKey (metadata repo) = Inl e \<longrightarrow>
        findAll repo db None = (db, Inl e) \<and> count repo db None = (db, Inl e)
        \<and> Query_sum round2 repo db metric None = (db, Inl e)
        \<and> Query_avg round2 repo db metric None = (db, Inl e))"
proof -
  have wrap: "findAllOptionsWrapper (metadata repo) None = Inr (defaultOptions (metadata repo) pk)"
    if "getPrimaryKey (metadata repo) = Inr pk"
    using that
    by (simp add: findAllOptionsWrapper_def handleEmptyOptions_def handleEmptyWhere_def
        handleEmptyRelations_def filterOutInvalidSelectValues_def defaultOptions_def
        emptyOptions_def pkMoreThanZero_def)
  have fail: "findAllOptionsWrapper (metadata repo) None = Inl e"
    if "getPrimaryKey (metadata repo) = Inl e"
    using that by (simp add: findAllOptionsWrapper_def handleEmptyOptions_def)
  show ?thesis
    by (auto simp add: wrap fail findAll_def count_def Query_sum_def Query_avg_def aggregate_def
        defaultOptions_def)
qed

text \<open>
  On the books the default options constrain \<open>id\<close>, and \<^verbatim>\<open>findAll\<close> without options
  returns both rows.
\<close>

theorem omitted_options_constrain_primary_key_witness:
  "findAllOptionsWrapper booksMetadata None =
     Inr \<lparr>o_take = None, o_skip = None, o_order = Some [(''created_at'', ''DESC'')],
          o_select = None, o_relations = Some (RelNames (Arr [''author''])),
          o_where = Some (WhereOne [(''id'', WOp (MoreThan (VNum 0)))])\<rparr>
   \<and> findAll (memRepository booksMetadata) booksStore None =
       (booksStore, Inr [[(''id'', VNum 1), (''name'', VStr ''Emma'')],
                         [(''id'', VNum 2), (''name'', VStr ''Ulysses'')]])"
proof -
  have pk: "getPrimaryKey (metadata (memRepository booksMetadata)) = Inr ''id''"
    by (simp add: getPrimaryKey_def memRepository_def booksMetadata_def)
  have m: "metadata (memRepository booksMetadata) = booksMetadata"
    by (simp add: memRepository_def)
  have d: "defaultOptions booksMetadata ''id'' =
     \<lparr>o_take = None, o_skip = None, o_order = Some [(''created_at'', ''DESC'')],
      o_select = None, o_relations = Some (RelNames (Arr [''author''])),
      o_where = Some (WhereOne [(''id'', WOp (MoreThan (VNum 0)))])\<rparr>"
    by (simp add: defaultOptions_def booksMetadata_def)
  have f: "repo_find (memRepository booksMetadata) booksStore (defaultOptions booksMetadata ''id'') =
       (booksStore, Inr [[(''id'', VNum 1), (''name'', VStr ''Emma'')],
                         [(''id'', VNum 2), (''name'', VStr ''Ulysses'')]])"
    by code_simp
  from omitted_options_constrain_primary_key [of "memRepository booksMetadata" "''id''" booksStore] pk
  show ?thesis
    by (simp add: m d [symmetric] f)
qed

section \<open>Properties of the filter builder\<close>

text \<open>Splitting strings, recognizing operators, and the effect of one query entry.\<close>

lemma split_on_nonempty: "split_on c s \<noteq> []"
  by (induction s) (auto split: list.splits)

lemma split_on_no_separator: "c \<notin> set s \<Longrightarrow> split_on c s = [s]"
  by (induction s) auto

lemma split_on_first: "c \<notin> set a \<Longrightarrow> split_on c (a @ c # b) = a # split_on c b"
  by (induction a) auto

lemma splitStringByFirstColon_prefixed:
  "CHR '':'' \<notin> set p \<Longrightarrow> splitStringByFirstColon (p @ CHR '':'' # v) = [p, v]"
  by (induction p) (auto simp add: splitStringByFirstColon_def)

lemma upperChar_colon: "upperChar CHR '':'' = CHR '':''"
  by (simp add: upperChar_def)

lemma colon_in_toUpperCase: "CHR '':'' \<in> set s \<Longrightarrow> CHR '':'' \<in> set (toUpperCase s)"
  unfolding toUpperCase_def
  using upperChar_colon by (metis image_eqI set_map)

lemma keyName_no_colon: "CHR '':'' \<notin> set (keyName k)"
  by (cases k) simp_all

lemma enumMember_colon: "CHR '':'' \<in> set name \<Longrightarrow> enumMember vals name = None"
proof -
  assume c: "CHR '':'' \<in> set name"
  have "keyName k \<noteq> name" for k
    using c keyName_no_colon [of k] by auto
  then have "find (\<lambda>k. keyName k = name) enumKeys = None"
    by (simp add: find_None_iff)
  then show ?thesis by (simp add: enumMember_def)
qed

lemma queryValue_recognized:
  assumes "CHR '':'' \<notin> set p" and "Enums_getKeyName vals (Some (toUpperCase p)) = Some op"
  shows "queryValue vals (Str (p @ CHR '':'' # v))
           = WOp (mapComparisonOperatorToTypeORMFindOperators op (VStr v))"
  using assms
  by (simp add: queryValue_def fieldLookupWhere_def lookupStep_def splitStringByFirstColon_prefixed)

lemma queryValue_unrecognized:
  assumes "CHR '':'' \<notin> set p" and "Enums_getKeyName vals (Some (toUpperCase p)) = None"
  shows "queryValue vals (Str (p @ CHR '':'' # v)) = WVal (VStr (p @ CHR '':'' # v))"
proof -
  have "enumMember vals (toUpperCase (p @ CHR '':'' # v)) = None"
    by (rule enumMember_colon) (simp add: colon_in_toUpperCase)
  with assms show ?thesis
    by (simp add: queryValue_def fieldLookupWhere_def lookupStep_def splitStringByFirstColon_prefixed
        Enums_getKeyName_def)
qed

lemma getKeyName_GT: "vals GT = s \<Longrightarrow> Enums_getKeyName vals (Some s) = Some GT"
  by (simp add: Enums_getKeyName_def enumKeys_def)

lemma isDeclared_column: "key \<in> set (map propertyName (columns m)) \<Longrightarrow> isDeclared m key"
  by (auto simp add: isDeclared_def find_None_iff)

lemma isDeclared_relation: "a \<in> set (relations m) \<Longrightarrow> a \<noteq> [] \<Longrightarrow> isDeclared m a"
proof -
  assume a: "a \<in> set (relations m)" and ne: "a \<noteq> []"
  then obtain r where "find (\<lambda>r. r = a) (relations m) = Some r"
    by (cases "find (\<lambda>r. r = a) (relations m)") (auto simp add: find_None_iff)
  moreover from this have "r = a" by (auto simp add: find_Some_iff)
  ultimately show ?thesis using ne by (simp add: isDeclared_def)
qed

lemma whereStep_plain:
  assumes "isDeclared m key" and "CHR ''.'' \<notin> set key"
  shows "whereStep vals m (key, v) wb = AList.update key (queryValue vals v) wb"
  using assms by (simp add: whereStep_def)

lemma spread_single: "spread wb [(k, v)] = AList.update k v wb"
  by (simp add: spread_def)

lemma spread_empty: "spread wb [] = wb"
  by (simp add: spread_def)

lemma createWhereRelations_cases:
  "createWhereRelations key v rels = [] \<or>
   (\<exists>w. createWhereRelations key v rels = [(hd (split_on CHR ''.'' key), w)])"
proof (cases "split_on CHR ''.'' key")
  case Nil
  then show ?thesis using split_on_nonempty by blast
next
  case (Cons k ks)
  then show ?thesis
    by (cases ks) (simp_all add: createWhereRelations_def)
qed

lemma whereStep_dotted_relation:
  assumes "CHR ''.'' \<notin> set a" and "CHR ''.'' \<notin> set b" and "a \<in> set (relations m)" and "a \<noteq> []"
    and "a \<noteq> ''__proto__''" and "b \<noteq> ''__proto__''"
  shows "whereStep vals m (a @ CHR ''.'' # b, v) wb = AList.update a (WObj [(b, queryValue vals v)]) wb"
  using assms
  by (simp add: whereStep_def split_on_first split_on_no_separator isDeclared_relation
      createWhereRelations_def spread_single)

lemma whereStep_dotted_other:
  assumes "CHR ''.'' \<notin> set a" and "a \<notin> set (relations m)"
  shows "whereStep vals m (a @ CHR ''.'' # b, v) wb = wb"
  using assms
  by (simp add: whereStep_def split_on_first createWhereRelations_def spread_empty)

lemma whereStep_other_key:
  assumes "writtenProperty (fst e) \<noteq> key"
  shows "map_of (whereStep vals m e wb) key = map_of wb key"
proof -
  obtain k v where e: "e = (k, v)" by (cases e)
  show ?thesis
  proof (cases "CHR ''.'' \<in> set k")
    case True
    from createWhereRelations_cases [of k "queryValue vals v" "relations m"]
    show ?thesis
      using assms e True
      by (auto simp add: whereStep_def writtenProperty_def spread_empty spread_single update_conv')
  next
    case False
    then have "hd (split_on CHR ''.'' k) = k" by (simp add: split_on_no_separator)
    with assms e False show ?thesis
      by (simp add: whereStep_def writtenProperty_def update_conv')
  qed
qed

lemma fold_whereStep_other_keys:
  assumes "\<forall>e \<in> set es. writtenProperty (fst e) \<noteq> key"
  shows "map_of (fold (whereStep vals m) es wb) key = map_of wb key"
  using assms
  by (induction es arbitrary: wb) (simp_all add: whereStep_other_key)

lemma whereStep_undeclared:
  assumes "\<not> isDeclared m k" and "CHR ''.'' \<notin> set k"
  shows "whereStep vals m (k, v) wb = wb"
  using assms by (simp add: whereStep_def)

lemma fold_whereStep_delete:
  assumes "\<not> isDeclared m k" and "CHR ''.'' \<notin> set k"
  shows "fold (whereStep vals m) (AList.delete k q) wb = fold (whereStep vals m) q wb"
  using assms
  by (induction q arbitrary: wb) (auto simp add: whereStep_undeclared)

lemma buildWhere_where:
  "fst (buildWhere vals opts) =
     (case searchOf (bw_query opts) of
        None \<Rightarrow> WhereOne (whereBaseOf vals (bw_repository opts) (bw_query opts))
      | Some sv \<Rightarrow>
          (case bw_search_fields opts of
             None \<Rightarrow> WhereOne (whereBaseOf vals (bw_repository opts) (bw_query opts))
           | Some sf \<Rightarrow>
               WhereMany (map (searchClause (whereBaseOf vals (bw_repository opts) (bw_query opts))
                                 (relations (bw_repository opts)) (searchValue sv)) sf)))"
  by (auto simp add: buildWhere_def searchOf_def dropUndefinedMarker_def Let_def delete_conv
      split: option.splits)



lemma whereBase_entry:
  assumes "query = before @ (k, v) # after"
    and "\<forall>e \<in> set after. writtenProperty (fst e) \<noteq> tk"
    and "\<And>wb. whereStep vals m (k, v) wb = AList.update tk w wb"
  shows "map_of (whereBaseOf vals m (Some query)) tk = Some w"
proof -
  have "whereBaseOf vals m (Some query)
          = fold (whereStep vals m) after (AList.update tk w (fold (whereStep vals m) before []))"
    using assms(1,3) by (simp add: whereBaseOf_def)
  then show ?thesis
    using fold_whereStep_other_keys [OF assms(2)] by (simp add: update_conv')
qed

lemma searchClause_other_key:
  assumes "writtenProperty f \<noteq> key"
  shows "map_of (searchClause wb rels sv f) key = map_of wb key"
proof (cases "CHR ''.'' \<in> set f")
  case True
  from createWhereRelations_cases [of f "WOp (Like (''%'' @ sv @ ''%''))" rels]
  show ?thesis
    using assms True
    by (auto simp add: searchClause_def writtenProperty_def spread_empty spread_single update_conv')
next
  case False
  then have "hd (split_on CHR ''.'' f) = f" by (simp add: split_on_no_separator)
  with assms False show ?thesis
    by (simp add: searchClause_def writtenProperty_def spread_single update_conv')
qed

lemma list_all_zip_map:
  "list_all (\<lambda>(f, c). P f c) (zip fs (map g fs)) = list_all (\<lambda>f. P f (g f)) fs"
  by (induction fs) simp_all

lemma filterHolds_buildWhere:
  assumes "map_of (whereBaseOf vals (bw_repository opts) (bw_query opts)) key = Some x"
  shows "filterHolds (fst (buildWhere vals opts)) (bw_search_fields opts) key x"
proof -
  have "list_all (\<lambda>(f, c). writtenProperty f \<noteq> key \<longrightarrow> map_of c key = Some x)
          (zip fs (map (searchClause (whereBaseOf vals (bw_repository opts) (bw_query opts)) rels sv) fs))"
    for fs rels sv
    using assms
    by (subst list_all_zip_map) (simp add: searchClause_other_key list_all_iff)
  with assms show ?thesis
    by (simp add: buildWhere_where filterHolds_def split: option.splits)
qed

lemma getKeyName_member:
  assumes "inj vals"
  shows "Enums_getKeyName vals (Some (vals k)) = Some k"
proof -
  have "(vals k' = vals k) = (k' = k)" for k'
    using assms by (simp add: inj_eq)
  then show ?thesis
    by (cases k) (simp_all add: Enums_getKeyName_def enumKeys_def)
qed

text \<open>
  Claim C6 as stated fails: with the filter \<^verbatim>\<open>{price: "gt:10"}\<close>, a search for \<open>10\<close> and
  the search field \<open>price\<close>, the only clause returned maps \<open>price\<close> to the partial match
  \<^verbatim>\<open>LIKE '%10%'\<close>. The search clause is spread over the where object and replaces the
  greater-than comparison on the same property.
\<close>

theorem search_field_replaces_comparison:
  "fst (buildWhere exampleValues
          \<lparr>bw_repository = booksMetadata,
           bw_query = Some [(''price'', Str ''gt:10''), (''search'', Str ''10'')],
           bw_account_id = None, bw_account_ids = None, bw_search_fields = Some [''price'']\<rparr>)
     = WhereMany [[(''price'', WOp (Like ''%10%''))]]"
  by code_simp

text \<open>
  Claim C6 as amended. Let \<open>key\<close> name a declared column and let the query hold the
  value \<open>p:v\<close> for it (\<open>p\<close> without a colon), with no later entry of the query writing
  the property \<open>key\<close>. Then the filter on \<open>key\<close> is held by the where object, and by
  every search clause whose search field does not write \<open>key\<close>, and it is: for the
  prefix recognized as GT, \<open>MoreThan v\<close>; as GTE, \<open>MoreThanOrEqual v\<close>; as LT,
  \<open>LessThan v\<close>; as LTE, \<open>LessThanOrEqual v\<close>; as EQ, \<open>Equal v\<close>; as NE,
  \<open>Not (Equal v)\<close>; as IS, \<open>IsNull\<close>; as NNULL, \<open>Not IsNull\<close> (the two null operators
  take no operand); and for a prefix that is not recognized, the whole value unchanged,
  an equality literal. A prefix is recognized as GT when, in upper case, it is the value
  of GT, and as any member when it is the value of that member and the values of the
  enum are distinct.
\<close>

theorem operator_prefix_mapping:
  assumes "key \<in> set (map propertyName (columns m))"
    and "CHR ''.'' \<notin> set key"
    and "CHR '':'' \<notin> set p"
    and "query = before @ (key, Str (p @ CHR '':'' # v)) # after"
    and "\<forall>e \<in> set after. writtenProperty (fst e) \<noteq> key"
    and "opts = \<lparr>bw_repository = m, bw_query = Some query, bw_account_id = acc,
                  bw_account_ids = accs, bw_search_fields = sf\<rparr>"
    and "recognized = Enums_getKeyName vals (Some (toUpperCase p))"
    and "result = fst (buildWhere vals opts)"
  shows "(recognized = Some GT \<longrightarrow> filterHolds result sf key (WOp (MoreThan (VStr v))))
      \<and> (recognized = Some GTE \<longrightarrow> filterHolds result sf key (WOp (MoreThanOrEqual (VStr v))))
      \<and> (recognized = Some LT \<longrightarrow> filterHolds result sf key (WOp (LessThan (VStr v))))
      \<and> (recognized = Some LTE \<longrightarrow> filterHolds result sf key (WOp (LessThanOrEqual (VStr v))))
      \<and> (recognized = Some EQ \<longrightarrow> filterHolds result sf key (WOp (Equal (VStr v))))
      \<and> (recognized = Some NE \<longrightarrow> filterHolds result sf key (WOp (NotOp (Equal (VStr v)))))
      \<and> (recognized = Some IS \<longrightarrow> filterHolds result sf key (WOp IsNull))
      \<and> (recognized = Some NNULL \<longrightarrow> filterHolds result sf key (WOp (NotOp IsNull)))
      \<and> (recognized = None \<longrightarrow> filterHolds result sf key (WVal (VStr (p @ CHR '':'' # v))))
      \<and> (toUpperCase p = vals GT \<longrightarrow> recognized = Some GT)
      \<and> (\<forall>k. inj vals \<and> toUpperCase p = vals k \<longrightarrow> recognized = Some k)"
proof -
  let ?qv = "queryValue vals (Str (p @ CHR '':'' # v))"
  have step: "whereStep vals m (key, Str (p @ CHR '':'' # v)) wb = AList.update key ?qv wb" for wb
    using assms(1,2) by (simp add: whereStep_plain isDeclared_column)
  have entry: "map_of (whereBaseOf vals (bw_repository opts) (bw_query opts)) key = Some ?qv"
    using whereBase_entry [OF assms(4) assms(5) step] assms(6) by simp
  have holds: "filterHolds result sf key ?qv"
    using filterHolds_buildWhere [OF entry] assms(6,8) by simp
  have rec: "?qv = WOp (mapComparisonOperatorToTypeORMFindOperators op (VStr v))"
    if "recognized = Some op" for op
    using queryValue_recognized [OF assms(3), of vals op v] that assms(7) by simp
  have unrec: "?qv = WVal (VStr (p @ CHR '':'' # v))" if "recognized = None"
    using queryValue_unrecognized [OF assms(3), of vals v] that assms(7) by simp
  have gt: "recognized = Some GT" if "toUpperCase p = vals GT"
    using getKeyName_GT [of vals "toUpperCase p"] that assms(7) by simp
  have member: "recognized = Some k" if "inj vals \<and> toUpperCase p = vals k" for k
    using getKeyName_member [of vals k] that assms(7) by simp
  show ?thesis
  proof (intro conjI impI allI)
    assume "recognized = Some GT"
    from rec [OF this] holds show "filterHolds result sf key (WOp (MoreThan (VStr v)))" by simp
  next
    assume "recognized = Some GTE"
    from rec [OF this] holds show "filterHolds result sf key (WOp (MoreThanOrEqual (VStr v)))" by simp
  next
    assume "recognized = Some LT"
    from rec [OF this] holds show "filterHolds result sf key (WOp (LessThan (VStr v)))" by simp
  next
    assume "recognized = Some LTE"
    from rec [OF this] holds show "filterHolds result sf key (WOp (LessThanOrEqual (VStr v)))" by simp
  next
    assume "recognized = Some EQ"
    from rec [OF this] holds show "filterHolds result sf key (WOp (Equal (VStr v)))" by simp
  next
    assume "recognized = Some NE"
    from rec [OF this] holds show "filterHolds result sf key (WOp (NotOp (Equal (VStr v))))" by simp
  next
    assume "recognized = Some IS"
    from rec [OF this] holds show "filterHolds result sf key (WOp IsNull)" by simp
  next
    assume "recognized = Some NNULL"
    from rec [OF this] holds show "filterHolds result sf key (WOp (NotOp IsNull))" by simp
  next
    assume "recognized = None"
    from unrec [OF this] holds show "filterHolds result sf key (WVal (VStr (p @ CHR '':'' # v)))" by simp
  next
    assume "toUpperCase p = vals GT"
    then show "recognized = Some GT" by (rule gt)
  next
    fix k assume "inj vals \<and> toUpperCase p = vals k"
    then show "recognized = Some k" by (rule member)
  qed
qed

text \<open>
  The input \<^verbatim>\<open>{price: "gt:10"}\<close> on the books yields a greater-than comparison on
  \<open>price\<close> with the value \<open>10\<close>; with \<^verbatim>\<open>{price: "lte:10", search: "emma"}\<close> and the
  search field \<open>name\<close> the one search clause keeps the comparison on \<open>price\<close>.
\<close>

theorem operator_prefix_mapping_witness:
  "fst (buildWhere exampleValues
          \<lparr>bw_repository = booksMetadata, bw_query = Some [(''price'', Str ''gt:10'')],
           bw_account_id = None, bw_account_ids = None, bw_search_fields = None\<rparr>)
     = WhereOne [(''price'', WOp (MoreThan (VStr ''10'')))]
   \<and> fst (buildWhere exampleValues
          \<lparr>bw_repository = booksMetadata,
           bw_query = Some [(''price'', Str ''lte:10''), (''search'', Str ''emma'')],
           bw_account_id = None, bw_account_ids = None, bw_search_fields = Some [''name'']\<rparr>)
     = WhereMany [[(''price'', WOp (LessThanOrEqual (VStr ''10''))),
                   (''name'', WOp (Like ''%emma%''))]]"
proof -
  let ?o1 = "\<lparr>bw_repository = booksMetadata, bw_query = Some [(''price'', Str ''gt:10'')],
           bw_account_id = None, bw_account_ids = None, bw_search_fields = None\<rparr>"
  let ?o2 = "\<lparr>bw_repository = booksMetadata,
           bw_query = Some [(''price'', Str ''lte:10''), (''search'', Str ''emma'')],
           bw_account_id = None, bw_account_ids = None, bw_search_fields = Some [''name'']\<rparr>"
  have col: "''price'' \<in> set (map propertyName (columns booksMetadata))"
    by (simp add: booksMetadata_def)
  have nodot: "CHR ''.'' \<notin> set ''price''" and c1: "CHR '':'' \<notin> set ''gt''"
    and c2: "CHR '':'' \<notin> set ''lte''"
    by simp_all
  have q1: "[(''price'', Str ''gt:10'')] = [] @ (''price'', Str (''gt'' @ CHR '':'' # ''10'')) # []"
    and q2: "[(''price'', Str ''lte:10''), (''search'', Str ''emma'')]
               = [] @ (''price'', Str (''lte'' @ CHR '':'' # ''10'')) # [(''search'', Str ''emma'')]"
    by simp_all
  have a1: "\<forall>e \<in> set []. writtenProperty (fst e) \<noteq> ''price''"
    and a2: "\<forall>e \<in> set [(''search'', Str ''emma'')]. writtenProperty (fst e) \<noteq> ''price''"
    by (simp_all add: writtenProperty_def)
  have r1: "Enums_getKeyName exampleValues (Some (toUpperCase ''gt'')) = Some GT"
    and r2: "Enums_getKeyName exampleValues (Some (toUpperCase ''lte'')) = Some LTE"
    by code_simp+
  have shape1: "\<exists>x. fst (buildWhere exampleValues ?o1) = WhereOne [(''price'', x)]"
    and shape2: "\<exists>x. fst (buildWhere exampleValues ?o2)
                        = WhereMany [[(''price'', x), (''name'', WOp (Like ''%emma%''))]]"
  proof -
    have "fst (buildWhere exampleValues ?o1) = WhereOne [(''price'', WOp (MoreThan (VStr ''10'')))]"
      by code_simp
    then show "\<exists>x. fst (buildWhere exampleValues ?o1) = WhereOne [(''price'', x)]" by simp
    have "fst (buildWhere exampleValues ?o2)
            = WhereMany [[(''price'', WOp (LessThanOrEqual (VStr ''10''))),
                          (''name'', WOp (Like ''%emma%''))]]"
      by code_simp
    then show "\<exists>x. fst (buildWhere exampleValues ?o2)
                      = WhereMany [[(''price'', x), (''name'', WOp (Like ''%emma%''))]]" by simp
  qed
  have h1: "filterHolds (fst (buildWhere exampleValues ?o1)) None ''price'' (WOp (MoreThan (VStr ''10'')))"
    using operator_prefix_mapping [OF col nodot c1 q1 a1 refl refl refl, of exampleValues] r1 by simp
  have h2: "filterHolds (fst (buildWhere exampleValues ?o2)) (Some [''name'']) ''price''
              (WOp (LessThanOrEqual (VStr ''10'')))"
    using operator_prefix_mapping [OF col nodot c2 q2 a2 refl refl refl, of exampleValues] r2 by simp
  have w: "writtenProperty ''name'' \<noteq> ''price''"
    by (simp add: writtenProperty_def)
  from h1 shape1 have "fst (buildWhere exampleValues ?o1) = WhereOne [(''price'', WOp (MoreThan (VStr ''10'')))]"
    by (auto simp add: filterHolds_def)
  moreover from h2 shape2 w have "fst (buildWhere exampleValues ?o2)
            = WhereMany [[(''price'', WOp (LessThanOrEqual (VStr ''10''))),
                          (''name'', WOp (Like ''%emma%''))]]"
    by (auto simp add: filterHolds_def)
  ultimately show ?thesis by simp
qed


lemma map_of_without_entry:
  "fst e \<noteq> k \<Longrightarrow> map_of (before @ e # after) k = map_of (before @ after) k"
  by (cases e) (simp add: map_of_append map_add_def split: option.splits)

lemma dotted_not_search: "a @ CHR ''.'' # b \<noteq> ''search''"
proof
  assume "a @ CHR ''.'' # b = ''search''"
  then have "CHR ''.'' \<in> set ''search''" by (metis in_set_conv_decomp)
  then show False by simp
qed

text \<open>
  Claim C7 as stated fails: of the two filters \<^verbatim>\<open>author.name\<close> and \<^verbatim>\<open>author.age\<close> only
  the later one is in the where object, \<^verbatim>\<open>{author: {age: ...}}\<close>, because each nested
  object is spread over the where object as a whole; in the same way the search field
  \<^verbatim>\<open>author.city\<close> replaces the filter \<^verbatim>\<open>author.name\<close> in its search clause.
\<close>

theorem later_relation_filter_replaces_earlier:
  "fst (buildWhere exampleValues
          \<lparr>bw_repository = booksMetadata,
           bw_query = Some [(''author.name'', Str ''smith''), (''author.age'', Str ''gt:3'')],
           bw_account_id = None, bw_account_ids = None, bw_search_fields = None\<rparr>)
     = WhereOne [(''author'', WObj [(''age'', WOp (MoreThan (VStr ''3'')))])]
   \<and> fst (buildWhere exampleValues
          \<lparr>bw_repository = booksMetadata,
           bw_query = Some [(''author.name'', Str ''smith''), (''search'', Str ''emma'')],
           bw_account_id = None, bw_account_ids = None, bw_search_fields = Some [''author.city'']\<rparr>)
     = WhereMany [[(''author'', WObj [(''city'', WOp (Like ''%emma%''))])]]"
  by code_simp

text \<open>
  Claim C7 as amended. For a query entry with the dotted key \<open>a.b\<close> (no dot in \<open>a\<close>):
  when \<open>a\<close> is a declared relation, \<open>b\<close> has no dot, \<open>a\<close> is not empty, neither is the
  name \<^verbatim>\<open>__proto__\<close>, and no later entry of the query writes the property \<open>a\<close>, then
  the nested object \<open>{b: value}\<close> is held under \<open>a\<close> by the where object and by every
  search clause whose search field does not write \<open>a\<close>; for the query with this entry
  alone the where clause is exactly \<open>{a: {b: value}}\<close>. When \<open>a\<close> is not a declared
  relation the entry leaves the where object as it was, the where clause is the one of
  the query without the entry, and for the query with this entry alone it is empty.
\<close>

theorem dotted_key_relation_filter:
  assumes "CHR ''.'' \<notin> set a"
    and "query = before @ (a @ CHR ''.'' # b, v) # after"
    and "opts = \<lparr>bw_repository = m, bw_query = Some query, bw_account_id = acc,
                  bw_account_ids = accs, bw_search_fields = sf\<rparr>"
  shows "(a \<in> set (relations m) \<and> a \<noteq> [] \<and> a \<noteq> ''__proto__''
           \<and> CHR ''.'' \<notin> set b \<and> b \<noteq> ''__proto__''
           \<and> (\<forall>e \<in> set after. writtenProperty (fst e) \<noteq> a) \<longrightarrow>
            filterHolds (fst (buildWhere vals opts)) sf a (WObj [(b, queryValue vals v)]))
       \<and> (a \<in> set (relations m) \<and> a \<noteq> [] \<and> a \<noteq> ''__proto__''
           \<and> CHR ''.'' \<notin> set b \<and> b \<noteq> ''__proto__'' \<and> before = [] \<and> after = [] \<longrightarrow>
            fst (buildWhere vals opts) = WhereOne [(a, WObj [(b, queryValue vals v)])])
       \<and> (a \<notin> set (relations m) \<longrightarrow>
            (\<forall>wb. whereStep vals m (a @ CHR ''.'' # b, v) wb = wb)
            \<and> fst (buildWhere vals opts) = fst (buildWhere vals (opts\<lparr>bw_query := Some (before @ after)\<rparr>))
            \<and> (before = [] \<and> after = [] \<longrightarrow> fst (buildWhere vals opts) = WhereOne []))"
proof (intro conjI impI)
  assume h: "a \<in> set (relations m) \<and> a \<noteq> [] \<and> a \<noteq> ''__proto__''
           \<and> CHR ''.'' \<notin> set b \<and> b \<noteq> ''__proto__''
           \<and> (\<forall>e \<in> set after. writtenProperty (fst e) \<noteq> a)"
  have step: "whereStep vals m (a @ CHR ''.'' # b, v) wb
                = AList.update a (WObj [(b, queryValue vals v)]) wb" for wb
    using h assms(1) by (simp add: whereStep_dotted_relation)
  have later: "\<forall>e \<in> set after. writtenProperty (fst e) \<noteq> a"
    using h by simp
  have "map_of (whereBaseOf vals (bw_repository opts) (bw_query opts)) a
          = Some (WObj [(b, queryValue vals v)])"
    using whereBase_entry [OF assms(2) later step] assms(3) by simp
  from filterHolds_buildWhere [OF this]
  show "filterHolds (fst (buildWhere vals opts)) sf a (WObj [(b, queryValue vals v)])"
    using assms(3) by simp
next
  assume h: "a \<in> set (relations m) \<and> a \<noteq> [] \<and> a \<noteq> ''__proto__''
           \<and> CHR ''.'' \<notin> set b \<and> b \<noteq> ''__proto__'' \<and> before = [] \<and> after = []"
  have "map_of query ''search'' = None"
    using h assms(2) dotted_not_search [of a b] by auto
  then show "fst (buildWhere vals opts) = WhereOne [(a, WObj [(b, queryValue vals v)])]"
    using h assms
    by (simp add: buildWhere_where searchOf_def whereBaseOf_def whereStep_dotted_relation)
next
  assume h: "a \<notin> set (relations m)"
  show "\<forall>wb. whereStep vals m (a @ CHR ''.'' # b, v) wb = wb"
    using h assms(1) by (simp add: whereStep_dotted_other)
next
  assume h: "a \<notin> set (relations m)"
  have base: "whereBaseOf vals m (Some query) = whereBaseOf vals m (Some (before @ after))"
    using h assms(1,2) by (simp add: whereBaseOf_def whereStep_dotted_other)
  have "map_of query ''search'' = map_of (before @ after) ''search''"
    using assms(2) dotted_not_search [of a b]
      map_of_without_entry [of "(a @ CHR ''.'' # b, v)" "''search''" before after] by simp
  then have "searchOf (Some query) = searchOf (Some (before @ after))"
    by (simp add: searchOf_def)
  with base show "fst (buildWhere vals opts)
                    = fst (buildWhere vals (opts\<lparr>bw_query := Some (before @ after)\<rparr>))"
    using assms(3) by (simp add: buildWhere_where split: option.splits)
next
  assume h: "a \<notin> set (relations m)" and e: "before = [] \<and> after = []"
  have "map_of query ''search'' = None"
    using e assms(2) dotted_not_search [of a b] by auto
  then show "fst (buildWhere vals opts) = WhereOne []"
    using h e assms
    by (simp add: buildWhere_where searchOf_def whereBaseOf_def whereStep_dotted_other)
qed

text \<open>
  On the books, \<^verbatim>\<open>{"author.name": "smith"}\<close> yields \<^verbatim>\<open>{author: {name: "smith"}}\<close>, and
  \<^verbatim>\<open>{"publisher.name": "smith"}\<close>, whose first segment is no relation, yields the empty
  clause; with a price filter and a search on \<open>name\<close> after it, the nested object is
  still held under \<open>author\<close>.
\<close>

theorem dotted_key_relation_filter_witness:
  "fst (buildWhere exampleValues
          \<lparr>bw_repository = booksMetadata, bw_query = Some [(''author.name'', Str ''smith'')],
           bw_account_id = None, bw_account_ids = None, bw_search_fields = None\<rparr>)
     = WhereOne [(''author'', WObj [(''name'', WVal (VStr ''smith''))])]
   \<and> fst (buildWhere exampleValues
          \<lparr>bw_repository = booksMetadata, bw_query = Some [(''publisher.name'', Str ''smith'')],
           bw_account_id = None, bw_account_ids = None, bw_search_fields = None\<rparr>)
     = WhereOne []
   \<and> filterHolds
        (fst (buildWhere exampleValues
          \<lparr>bw_repository = booksMetadata,
           bw_query = Some [(''author.name'', Str ''smith''), (''price'', Str ''gt:10''),
                            (''search'', Str ''emma'')],
           bw_account_id = None, bw_account_ids = None, bw_search_fields = Some [''name'']\<rparr>))
        (Some [''name'']) ''author'' (WObj [(''name'', WVal (VStr ''smith''))])"
proof -
  have rel: "''author'' \<in> set (relations booksMetadata) \<and> ''author'' \<noteq> []
               \<and> ''author'' \<noteq> ''__proto__''
               \<and> CHR ''.'' \<notin> set ''name'' \<and> ''name'' \<noteq> ''__proto__''
               \<and> [] = ([] :: (string \<times> qvalue) list)
               \<and> [] = ([] :: (string \<times> qvalue) list)"
    by (simp add: booksMetadata_def)
  have rel3: "''author'' \<in> set (relations booksMetadata) \<and> ''author'' \<noteq> []
               \<and> ''author'' \<noteq> ''__proto__''
               \<and> CHR ''.'' \<notin> set ''name'' \<and> ''name'' \<noteq> ''__proto__''
               \<and> (\<forall>e \<in> set [(''price'', Str ''gt:10''), (''search'', Str ''emma'')].
                     writtenProperty (fst e) \<noteq> ''author'')"
    by (simp add: booksMetadata_def writtenProperty_def)
  have norel: "''publisher'' \<notin> set (relations booksMetadata)"
    by (simp add: booksMetadata_def)
  have qv: "queryValue exampleValues (Str ''smith'') = WVal (VStr ''smith'')"
    by code_simp
  have d1: "CHR ''.'' \<notin> set ''author''" and d2: "CHR ''.'' \<notin> set ''publisher''"
    by simp_all
  have q1: "[(''author.name'', Str ''smith'')] = [] @ (''author'' @ CHR ''.'' # ''name'', Str ''smith'') # []"
    and q2: "[(''publisher.name'', Str ''smith'')] = [] @ (''publisher'' @ CHR ''.'' # ''name'', Str ''smith'') # []"
    and q3: "[(''author.name'', Str ''smith''), (''price'', Str ''gt:10''), (''search'', Str ''emma'')]
               = [] @ (''author'' @ CHR ''.'' # ''name'', Str ''smith'')
                   # [(''price'', Str ''gt:10''), (''search'', Str ''emma'')]"
    by simp_all
  have "fst (buildWhere exampleValues
          \<lparr>bw_repository = booksMetadata, bw_query = Some [(''author.name'', Str ''smith'')],
           bw_account_id = None, bw_account_ids = None, bw_search_fields = None\<rparr>)
     = WhereOne [(''author'', WObj [(''name'', queryValue exampleValues (Str ''smith''))])]"
    using dotted_key_relation_filter [OF d1 q1 refl, where m = booksMetadata and vals = exampleValues] rel
    by blast
  moreover have "fst (buildWhere exampleValues
          \<lparr>bw_repository = booksMetadata, bw_query = Some [(''publisher.name'', Str ''smith'')],
           bw_account_id = None, bw_account_ids = None, bw_search_fields = None\<rparr>)
     = WhereOne []"
    using dotted_key_relation_filter [OF d2 q2 refl, where m = booksMetadata and vals = exampleValues] norel
    by blast
  moreover have "filterHolds
        (fst (buildWhere exampleValues
          \<lparr>bw_repository = booksMetadata,
           bw_query = Some [(''author.name'', Str ''smith''), (''price'', Str ''gt:10''),
                            (''search'', Str ''emma'')],
           bw_account_id = None, bw_account_ids = None, bw_search_fields = Some [''name'']\<rparr>))
        (Some [''name'']) ''author'' (WObj [(''name'', queryValue exampleValues (Str ''smith''))])"
    using dotted_key_relation_filter [OF d1 q3 refl, where m = booksMetadata and vals = exampleValues] rel3
    by blast
  ultimately show ?thesis
    by (simp add: qv)
qed

text \<open>
  Claim C5 as stated fails: with the string \<^verbatim>\<open>"undefined"\<close> as the search value and
  one search field, the where clause holds the search clause
  \<^verbatim>\<open>name LIKE '%undefined%'\<close>, where the same call without a search value returns the
  plain where object. The test \<^verbatim>\<open>search.length === 1 && search[0] === 'undefined'\<close>
  compares the first character of a string.
\<close>

theorem undefined_search_string_is_searched:
  "fst (buildWhere exampleValues
          \<lparr>bw_repository = booksMetadata, bw_query = Some [(''search'', Str ''undefined'')],
           bw_account_id = None, bw_account_ids = None, bw_search_fields = Some [''name'']\<rparr>)
     = WhereMany [[(''name'', WOp (Like ''%undefined%''))]]
   \<and> fst (buildWhere exampleValues
          \<lparr>bw_repository = booksMetadata, bw_query = Some [],
           bw_account_id = None, bw_account_ids = None, bw_search_fields = Some [''name'']\<rparr>)
     = WhereOne []"
  by code_simp

text \<open>
  Claim C5 as amended. When the search value is the one-element array
  \<^verbatim>\<open>['undefined']\<close> (and \<open>search\<close> is no declared column or relation), \<^verbatim>\<open>buildWhere\<close>
  deletes it from the query and returns the where object without any search clause, the
  same where clause as for the query without the search property. The relations value
  never contributes to the where clause, whatever it is (\<open>relations\<close> being no declared
  column or relation): the clause is the one of the query without it.
\<close>

theorem undefined_marker_array_is_absent:
  assumes "opts = \<lparr>bw_repository = m, bw_query = Some query, bw_account_id = acc,
                  bw_account_ids = accs, bw_search_fields = sf\<rparr>"
  shows "(map_of query ''search'' = Some (Arr [''undefined'']) \<and> \<not> isDeclared m ''search'' \<longrightarrow>
            buildWhere vals opts
              = (WhereOne (whereBaseOf vals m (Some (AList.delete ''search'' query))),
                 Some (AList.delete ''search'' query))
            \<and> fst (buildWhere vals opts)
                = fst (buildWhere vals (opts\<lparr>bw_query := Some (AList.delete ''search'' query)\<rparr>)))
       \<and> (\<not> isDeclared m ''relations'' \<longrightarrow>
            fst (buildWhere vals opts)
              = fst (buildWhere vals (opts\<lparr>bw_query := Some (AList.delete ''relations'' query)\<rparr>)))"
proof (intro conjI impI)
  assume h: "map_of query ''search'' = Some (Arr [''undefined'']) \<and> \<not> isDeclared m ''search''"
  have base: "whereBaseOf vals m (Some (AList.delete ''search'' query)) = whereBaseOf vals m (Some query)"
    using h by (simp add: whereBaseOf_def fold_whereStep_delete)
  show "buildWhere vals opts
          = (WhereOne (whereBaseOf vals m (Some (AList.delete ''search'' query))),
             Some (AList.delete ''search'' query))"
    using h assms by (simp add: base buildWhere_def dropUndefinedMarker_def delete_conv)
  show "fst (buildWhere vals opts)
          = fst (buildWhere vals (opts\<lparr>bw_query := Some (AList.delete ''search'' query)\<rparr>))"
    using h assms by (simp add: base buildWhere_where searchOf_def delete_conv)
next
  assume h: "\<not> isDeclared m ''relations''"
  have base: "whereBaseOf vals m (Some (AList.delete ''relations'' query)) = whereBaseOf vals m (Some query)"
    using h by (simp add: whereBaseOf_def fold_whereStep_delete)
  have "searchOf (Some (AList.delete ''relations'' query)) = searchOf (Some query)"
    by (simp add: searchOf_def delete_conv)
  with base show "fst (buildWhere vals opts)
          = fst (buildWhere vals (opts\<lparr>bw_query := Some (AList.delete ''relations'' query)\<rparr>))"
    using assms by (simp add: buildWhere_where split: option.splits)
qed

text \<open>
  On the books, a price filter with the search \<^verbatim>\<open>['undefined']\<close>: the search is dropped
  from the query and only the price filter is returned.
\<close>

theorem undefined_marker_array_is_absent_witness:
  "buildWhere exampleValues
     \<lparr>bw_repository = booksMetadata,
      bw_query = Some [(''price'', Str ''gt:10''), (''search'', Arr [''undefined''])],
      bw_account_id = None, bw_account_ids = None, bw_search_fields = Some [''name'']\<rparr>
   = (WhereOne [(''price'', WOp (MoreThan (VStr ''10'')))], Some [(''price'', Str ''gt:10'')])"
proof -
  have nd: "\<not> isDeclared booksMetadata ''search''"
    by (simp add: isDeclared_def booksMetadata_def)
  have wb: "whereBaseOf exampleValues booksMetadata
              (Some (AList.delete ''search'' [(''price'', Str ''gt:10''), (''search'', Arr [''undefined''])]))
            = [(''price'', WOp (MoreThan (VStr ''10'')))]"
    by code_simp
  from undefined_marker_array_is_absent
         [where m = booksMetadata and vals = exampleValues
            and query = "[(''price'', Str ''gt:10''), (''search'', Arr [''undefined''])]"
            and acc = None and accs = None and sf = "Some [''name'']"]
       nd wb
  show ?thesis by (simp add: delete_conv)
qed

section \<open>Configuration errors and repopulation\<close>

text \<open>
  Claim C9. \<^verbatim>\<open>update\<close> with a payload whose primary-key value is missing (or falsy)
  throws the error that names the key, and throws as well when the table has no primary
  key; \<^verbatim>\<open>bulk\<close> in UPSERT or DELETE mode without a dedup field throws. In each case the
  database comes back as it was given, whatever the operations of the repository do:
  none of them has run.
\<close>

theorem configuration_errors_precede_writes:
  "(Query_getPrimaryKey (metadata repo) = Inr pk \<and> \<not> truthy (getProp data pk) \<longrightarrow>
      update repo db data rels =
        (db, Inl (JsError (''Primary key '' @ pk @ '' missing from update to ''
                           @ tableName (metadata repo)))))
   \<and> (Query_getPrimaryKey (metadata repo) = Inl e \<longrightarrow> update repo db data rels = (db, Inl e))
   \<and> ((mode = UPSERT \<or> mode = DELETE) \<and> (dedup_field = None \<or> dedup_field = Some []) \<longrightarrow>
        bulk repo db rows mode dedup_field = (db, Inl (JsError ''Dedup field required for update'')))"
  by (auto simp add: update_def bulk_def)

text \<open>
  An update of the books without an \<open>id\<close>, and bulk calls without a dedup field: the
  store is untouched.
\<close>

theorem configuration_errors_precede_writes_witness:
  "update (memRepository booksMetadata) booksStore [(''name'', VStr ''Dune'')] [] =
     (booksStore, Inl (JsError ''Primary key id missing from update to books''))
   \<and> bulk (memRepository booksMetadata) booksStore threeRows UPSERT None =
       (booksStore, Inl (JsError ''Dedup field required for update''))
   \<and> bulk (memRepository booksMetadata) booksStore threeRows DELETE (Some []) =
       (booksStore, Inl (JsError ''Dedup field required for update''))"
proof -
  have pk: "Query_getPrimaryKey (metadata (memRepository booksMetadata)) = Inr ''id''"
    by (simp add: Query_getPrimaryKey_def memRepository_def booksMetadata_def)
  have miss: "\<not> truthy (getProp [(''name'', VStr ''Dune'')] ''id'')"
    by (simp add: getProp_def)
  have tn: "tableName (metadata (memRepository booksMetadata)) = ''books''"
    by (simp add: memRepository_def booksMetadata_def)
  from configuration_errors_precede_writes
         [of "memRepository booksMetadata" "''id''" "[(''name'', VStr ''Dune'')]" booksStore "[]" _ UPSERT None threeRows]
       configuration_errors_precede_writes
         [of "memRepository booksMetadata" "''id''" "[(''name'', VStr ''Dune'')]" booksStore "[]" _ DELETE "Some []" threeRows]
       pk miss tn
  show ?thesis by simp
qed

text \<open>
  In REPOPULATE mode, for every repository handle: once the copy and the truncation have
  gone through, the outcome is the result of the create loop, errors included, as soon
  as the copy could be dropped; the renaming of \<^verbatim>\<open>restoreTable\<close> is not part of it.
\<close>

lemma repopulate_without_restore:
  assumes "copyTable repo db None = (db1, Inr ())"
    and "truncate repo db1 = (db2, Inr ())"
    and "createBulkRecords repo db2 data = (db3, result)"
    and "dropTable repo db3 (tableName (metadata repo) @ ''_COPY'') = (db4, Inr ())"
  shows "bulk repo db data REPOPULATE dedup_field = (db4, Inr result)"
  using assms by (simp add: bulk_def andThen_def)

text \<open>
  Claim C1 on the books, which hold Emma and Ulysses before the call. Repopulating with
  the three rows, of which the second fails, ends with the two rows that could be
  created as the only rows of the table and without the copy: the loop has caught the
  row's error itself, so the try block of \<^verbatim>\<open>bulk\<close> went on to drop the copy and the
  catch block with \<^verbatim>\<open>restoreTable\<close> never ran.
\<close>

theorem repopulate_row_failure_not_restored:
  "bulk (memRepository booksMetadata) booksStore threeRows REPOPULATE None =
     ([(''books'', [[(''name'', VStr ''Dune''), (''id'', VNum 1)],
                    [(''name'', VStr ''Solaris''), (''id'', VNum 2)]])],
      Inr \<lparr>b_total = 3, b_processed = 3, b_created = 2, b_updated = 0, b_deleted = 0,
           b_errored = 1, b_errors = Some [''Column name cannot be null''],
           b_ids = [VNum 1, VNum 2]\<rparr>)"
  by code_simp

end
